theory Spec2Isabelle
  imports Main
begin

section \<open>Python values\<close>

text \<open>
  The data classes of \<^verbatim>\<open>cognite/experimental/data_classes\<close> carry dynamically typed
  values: JSON bodies returned by the service, identifiers that are numbers or strings,
  tuples given by the caller. They are modelled by one datatype. A dictionary is an
  association list with unique keys in insertion order (the keys of a JSON object are
  strings). A float is kept as mantissa and binary exponent; the code below only ever
  tests a float's type, never its value.
\<close>

datatype pyval =
    PNone
  | PBool bool
  | PInt int
  | PFloat int int
  | PStr string
  | PList "pyval list"
  | PTuple "pyval list"
  | PDict "(string \<times> pyval) list"

type_synonym pydict = "(string \<times> pyval) list"

text \<open>Every exception the modelled code can raise.\<close>

datatype py_error =
    TypeError
  | IndexError
  | KeyError string
  | AttributeError
  | ValueError
  | Exception string
  | ModelFailedException string pyval pyval

fun isinstance_str :: "pyval \<Rightarrow> bool" where
  "isinstance_str (PStr s) = True"
| "isinstance_str v = False"

fun isinstance_dict :: "pyval \<Rightarrow> bool" where
  "isinstance_dict (PDict d) = True"
| "isinstance_dict v = False"

text \<open>\<^verbatim>\<open>len(x)\<close>: defined on strings, lists, tuples and dicts, a TypeError elsewhere.\<close>

fun py_len :: "pyval \<Rightarrow> py_error + nat" where
  "py_len (PStr s) = Inr (length s)"
| "py_len (PList xs) = Inr (length xs)"
| "py_len (PTuple xs) = Inr (length xs)"
| "py_len (PDict d) = Inr (length d)"
| "py_len v = Inl TypeError"

text \<open>
  \<^verbatim>\<open>x[i]\<close> for a non-negative integer \<open>i\<close>: an element of a list or tuple, a
  one-character string of a string, IndexError out of range. A dict with string keys
  has no integer key; the other values are not subscriptable.
\<close>

fun py_index :: "pyval \<Rightarrow> nat \<Rightarrow> py_error + pyval" where
  "py_index (PList xs) i = (if i < length xs then Inr (xs ! i) else Inl IndexError)"
| "py_index (PTuple xs) i = (if i < length xs then Inr (xs ! i) else Inl IndexError)"
| "py_index (PStr s) i = (if i < length s then Inr (PStr [s ! i]) else Inl IndexError)"
| "py_index (PDict d) i = Inl (KeyError [])"
| "py_index v i = Inl TypeError"

text \<open>\<^verbatim>\<open>d[k] = v\<close>: replaces the value of an existing key in place, appends a new key.\<close>

fun dict_set :: "pydict \<Rightarrow> string \<Rightarrow> pyval \<Rightarrow> pydict" where
  "dict_set [] k v = [(k, v)]"
| "dict_set ((k', v') # d) k v =
     (if k' = k then (k, v) # d else (k', v') # dict_set d k v)"

text \<open>\<^verbatim>\<open>d.get(k)\<close>: the value, or None when the key is absent.\<close>

definition dict_get :: "pydict \<Rightarrow> string \<Rightarrow> pyval" where
  "dict_get d k = (case map_of d k of None \<Rightarrow> PNone | Some v \<Rightarrow> v)"

section \<open>True-match normalisation\<close>

text \<open>
  \<^verbatim>\<open>
  def convert_true_match(true_match):
      if not isinstance(true_match, dict) and len(true_match) == 2:
          converted_true_match = {}
          for i, fromto in enumerate(["from", "to"]):
              if isinstance(true_match[i], str):
                  converted_true_match[fromto + "ExternalId"] = true_match[i]
              else:
                  converted_true_match[fromto + "Id"] = true_match[i]
          return converted_true_match
      else:
          return true_match
  \<close>
  The loop over \<^verbatim>\<open>enumerate(["from", "to"])\<close> is \<open>convert_loop\<close>, with the dictionary
  under construction as accumulator.
\<close>

fun convert_loop :: "pyval \<Rightarrow> (nat \<times> string) list \<Rightarrow> pydict \<Rightarrow> py_error + pydict" where
  "convert_loop true_match [] converted = Inr converted"
| "convert_loop true_match ((i, fromto) # rest) converted =
     (case py_index true_match i of
        Inl e \<Rightarrow> Inl e
      | Inr v \<Rightarrow>
          convert_loop true_match rest
            (if isinstance_str v then dict_set converted (fromto @ ''ExternalId'') v
             else dict_set converted (fromto @ ''Id'') v))"

definition convert_true_match :: "pyval \<Rightarrow> py_error + pyval" where
  "convert_true_match true_match =
     (if isinstance_dict true_match then Inr true_match
      else case py_len true_match of
        Inl e \<Rightarrow> Inl e
      | Inr n \<Rightarrow>
          if n = 2 then
            (case convert_loop true_match (enumerate 0 [''from'', ''to'']) [] of
               Inl e \<Rightarrow> Inl e
             | Inr converted \<Rightarrow> Inr (PDict converted))
          else Inr true_match)"

section \<open>Job handles\<close>

text \<open>
  \<^verbatim>\<open>ContextualizationJob\<close> and its subclass \<^verbatim>\<open>EntityMatchingPipelineRun\<close> share
  every method; they differ in \<^verbatim>\<open>__class__.__name__\<close> and in the class attribute
  \<^verbatim>\<open>_COMMON_FIELDS\<close>:
  \<^verbatim>\<open>
  class ContextualizationJob(CogniteResource):
      _COMMON_FIELDS = {"status", "jobId", "errorMessage", "requestTimestamp",
                        "startTimestamp", "statusTimestamp"}
  class EntityMatchingPipelineRun(ContextualizationJob):
      _COMMON_FIELDS = ContextualizationJob._COMMON_FIELDS & {"pipeline_id"}
  \<close>
  The operator \<^verbatim>\<open>&\<close> on Python sets is intersection.
\<close>

datatype job_class = ContextualizationJob | EntityMatchingPipelineRun

fun class_name :: "job_class \<Rightarrow> string" where
  "class_name ContextualizationJob = ''ContextualizationJob''"
| "class_name EntityMatchingPipelineRun = ''EntityMatchingPipelineRun''"

definition ContextualizationJob_COMMON_FIELDS :: "string set" where
  "ContextualizationJob_COMMON_FIELDS =
     {''status'', ''jobId'', ''errorMessage'', ''requestTimestamp'',
      ''startTimestamp'', ''statusTimestamp''}"

definition EntityMatchingPipelineRun_COMMON_FIELDS :: "string set" where
  "EntityMatchingPipelineRun_COMMON_FIELDS =
     ContextualizationJob_COMMON_FIELDS \<inter> {''pipeline_id''}"

text \<open>\<^verbatim>\<open>self._COMMON_FIELDS\<close>: the attribute of the class of \<^verbatim>\<open>self\<close>.\<close>

fun COMMON_FIELDS :: "job_class \<Rightarrow> string set" where
  "COMMON_FIELDS ContextualizationJob = ContextualizationJob_COMMON_FIELDS"
| "COMMON_FIELDS EntityMatchingPipelineRun = EntityMatchingPipelineRun_COMMON_FIELDS"

text \<open>
  The status attributes are the same in \<^verbatim>\<open>ContextualizationJob\<close> and in
  \<^verbatim>\<open>EntityMatchingModel\<close>; both records extend \<open>status_fields\<close>. The attribute
  \<^verbatim>\<open>_result\<close> is \<open>result_cache\<close>, and \<^verbatim>\<open>id\<close> of a model is \<open>model_id\<close>.
\<close>

record status_fields =
  status :: pyval
  request_timestamp :: pyval
  start_timestamp :: pyval
  status_timestamp :: pyval
  error_message :: pyval

record job = status_fields +
  cls :: job_class
  job_id :: pyval
  result_cache :: pyval
  status_path :: pyval
  pipeline_id :: pyval

record model = status_fields +
  model_id :: pyval
  classifier :: pyval
  feature_type :: pyval
  match_fields :: pyval
  model_type :: pyval
  name :: pyval
  description :: pyval
  external_id :: pyval

text \<open>Truth value of a Python object, as \<^verbatim>\<open>not x\<close> and \<^verbatim>\<open>x or y\<close> test it.\<close>

fun truthy :: "pyval \<Rightarrow> bool" where
  "truthy PNone = False"
| "truthy (PBool b) = b"
| "truthy (PInt i) = (i \<noteq> 0)"
| "truthy (PFloat m e) = (m \<noteq> 0)"
| "truthy (PStr s) = (s \<noteq> [])"
| "truthy (PList xs) = (xs \<noteq> [])"
| "truthy (PTuple xs) = (xs \<noteq> [])"
| "truthy (PDict d) = (d \<noteq> [])"

definition py_or :: "pyval \<Rightarrow> pyval \<Rightarrow> pyval" where
  "py_or a b = (if truthy a then a else b)"

text \<open>
  The service is a parameter: \<open>srv k\<close> is the JSON object that the \<open>k\<close>-th status
  request of a handle returns, and the state carries the number of requests issued so
  far next to the handle. (The request path is built from \<^verbatim>\<open>_status_path\<close> and
  \<^verbatim>\<open>job_id\<close>, which no method below assigns.) \<^verbatim>\<open>data["status"]\<close> raises KeyError
  when the key is missing.
  \<^verbatim>\<open>
  def update_status(self) -> str:
      data = self._cognite_client.entity_matching._get(f"{self._status_path}{self.job_id}").json()
      self.status = data["status"]
      self.status_timestamp = data.get("statusTimestamp")
      self.start_timestamp = data.get("startTimestamp")
      self.request_timestamp = self.request_timestamp or data.get("requestTimestamp")
      self.error_message = data.get("errorMessage")
      self._result = {k: v for k, v in data.items() if k not in self._COMMON_FIELDS}
      return self.status
  \<close>
  The value returned is the \<open>status\<close> of the handle returned here.
\<close>

definition job_update_status :: "(nat \<Rightarrow> pydict) \<Rightarrow> job \<times> nat \<Rightarrow> py_error + job \<times> nat" where
  "job_update_status srv s =
     (let self = fst s; polls = snd s; data = srv polls in
      case map_of data ''status'' of
        None \<Rightarrow> Inl (KeyError ''status'')
      | Some st \<Rightarrow>
          Inr (self\<lparr>status := st,
                    status_timestamp := dict_get data ''statusTimestamp'',
                    start_timestamp := dict_get data ''startTimestamp'',
                    request_timestamp :=
                      py_or (request_timestamp self) (dict_get data ''requestTimestamp''),
                    error_message := dict_get data ''errorMessage'',
                    result_cache :=
                      PDict (filter (\<lambda>kv. fst kv \<notin> COMMON_FIELDS (cls self)) data)\<rparr>,
               Suc polls))"

text \<open>
  \<^verbatim>\<open>
  def wait_for_completion(self, interval=1):
      while True:
          self.update_status()
          if self.status not in ["Queued", "Running"]:
              break
          time.sleep(interval)
      if self.status == "Failed":
          raise ModelFailedException(self.__class__.__name__, self.job_id, self.error_message)
  \<close>
  The loop has no bound: it is a partial function, \<open>None\<close> when it never ends.
  \<^verbatim>\<open>time.sleep\<close> changes nothing in the state.
\<close>

partial_function (option) job_poll_loop ::
  "(nat \<Rightarrow> pydict) \<Rightarrow> job \<times> nat \<Rightarrow> (py_error + job \<times> nat) option" where
  "job_poll_loop srv s =
     (case job_update_status srv s of
        Inl e \<Rightarrow> Some (Inl e)
      | Inr s' \<Rightarrow>
          if status (fst s') \<notin> set [PStr ''Queued'', PStr ''Running''] then Some (Inr s')
          else job_poll_loop srv s')"

definition job_wait_for_completion ::
  "(nat \<Rightarrow> pydict) \<Rightarrow> job \<times> nat \<Rightarrow> (py_error + job \<times> nat) option" where
  "job_wait_for_completion srv s =
     (case job_poll_loop srv s of
        None \<Rightarrow> None
      | Some (Inl e) \<Rightarrow> Some (Inl e)
      | Some (Inr s') \<Rightarrow>
          if status (fst s') = PStr ''Failed'' then
            Some (Inl (ModelFailedException (class_name (cls (fst s'))) (job_id (fst s'))
                         (error_message (fst s'))))
          else Some (Inr s'))"

text \<open>
  \<^verbatim>\<open>
  @property
  def result(self):
      if not self._result:
          self.wait_for_completion()
      return self._result
  \<close>
  The value returned comes first, then the state.
\<close>

definition job_result ::
  "(nat \<Rightarrow> pydict) \<Rightarrow> job \<times> nat \<Rightarrow> (py_error + pyval \<times> job \<times> nat) option" where
  "job_result srv s =
     (if \<not> truthy (result_cache (fst s)) then
        (case job_wait_for_completion srv s of
           None \<Rightarrow> None
         | Some (Inl e) \<Rightarrow> Some (Inl e)
         | Some (Inr s') \<Rightarrow> Some (Inr (result_cache (fst s'), s')))
      else Some (Inr (result_cache (fst s), s)))"

section \<open>Entity matching models\<close>

text \<open>
  \<^verbatim>\<open>EntityMatchingModel.update_status\<close> is the method of the job without the
  assignment to \<^verbatim>\<open>_result\<close>; \<^verbatim>\<open>wait_for_completion\<close> is the same loop, raising with
  \<^verbatim>\<open>self.id\<close>.
\<close>

definition model_update_status ::
  "(nat \<Rightarrow> pydict) \<Rightarrow> model \<times> nat \<Rightarrow> py_error + model \<times> nat" where
  "model_update_status srv s =
     (let self = fst s; polls = snd s; data = srv polls in
      case map_of data ''status'' of
        None \<Rightarrow> Inl (KeyError ''status'')
      | Some st \<Rightarrow>
          Inr (self\<lparr>status := st,
                    status_timestamp := dict_get data ''statusTimestamp'',
                    start_timestamp := dict_get data ''startTimestamp'',
                    request_timestamp :=
                      py_or (request_timestamp self) (dict_get data ''requestTimestamp''),
                    error_message := dict_get data ''errorMessage''\<rparr>,
               Suc polls))"

partial_function (option) model_poll_loop ::
  "(nat \<Rightarrow> pydict) \<Rightarrow> model \<times> nat \<Rightarrow> (py_error + model \<times> nat) option" where
  "model_poll_loop srv s =
     (case model_update_status srv s of
        Inl e \<Rightarrow> Some (Inl e)
      | Inr s' \<Rightarrow>
          if status (fst s') \<notin> set [PStr ''Queued'', PStr ''Running''] then Some (Inr s')
          else model_poll_loop srv s')"

definition model_wait_for_completion ::
  "(nat \<Rightarrow> pydict) \<Rightarrow> model \<times> nat \<Rightarrow> (py_error + model \<times> nat) option" where
  "model_wait_for_completion srv s =
     (case model_poll_loop srv s of
        None \<Rightarrow> None
      | Some (Inl e) \<Rightarrow> Some (Inl e)
      | Some (Inr s') \<Rightarrow>
          if status (fst s') = PStr ''Failed'' then
            Some (Inl (ModelFailedException ''EntityMatchingModel'' (model_id (fst s'))
                         (error_message (fst s'))))
          else Some (Inr s'))"

section \<open>Concrete handles and services\<close>

text \<open>
  A service that answers the \<open>k\<close>-th status request with the \<open>k\<close>-th listed response
  and repeats the last one afterwards.
\<close>

definition scripted :: "pydict list \<Rightarrow> nat \<Rightarrow> pydict" where
  "scripted rs k = (if k < length rs then rs ! k else last rs)"

text \<open>
  The handle that \<^verbatim>\<open>__init__\<close> builds when only \<^verbatim>\<open>job_id\<close> and \<^verbatim>\<open>status_path\<close>
  are given: every other attribute is None.
\<close>

definition job_init :: "job_class \<Rightarrow> pyval \<Rightarrow> pyval \<Rightarrow> job" where
  "job_init c jid path =
     \<lparr>status = PNone, request_timestamp = PNone, start_timestamp = PNone,
      status_timestamp = PNone, error_message = PNone, cls = c, job_id = jid,
      result_cache = PNone, status_path = path, pipeline_id = PNone\<rparr>"

definition polls_timestamps_then_omitted :: "pydict list" where
  "polls_timestamps_then_omitted =
     [[(''status'', PStr ''Running''), (''startTimestamp'', PInt 1600000000000),
       (''statusTimestamp'', PInt 1600000000500)],
      [(''status'', PStr ''Running'')]]"

definition job_after_first_poll :: job where
  "job_after_first_poll =
     \<lparr>status = PStr ''Running'', request_timestamp = PNone,
      start_timestamp = PInt 1600000000000, status_timestamp = PInt 1600000000500,
      error_message = PNone, cls = ContextualizationJob, job_id = PInt 7,
      result_cache = PDict [], status_path = PStr ''/jobs/'', pipeline_id = PNone\<rparr>"

text \<open>The model that \<^verbatim>\<open>__init__\<close> builds when only \<^verbatim>\<open>id\<close> is given.\<close>

definition model_init :: "pyval \<Rightarrow> model" where
  "model_init mid =
     \<lparr>status = PNone, request_timestamp = PNone, start_timestamp = PNone,
      status_timestamp = PNone, error_message = PNone, model_id = mid,
      classifier = PNone, feature_type = PNone, match_fields = PNone, model_type = PNone,
      name = PNone, description = PNone, external_id = PNone\<rparr>"

definition polls_queued_running_failed :: "pydict list" where
  "polls_queued_running_failed =
     [[(''status'', PStr ''Queued'')],
      [(''status'', PStr ''Running'')],
      [(''status'', PStr ''Failed''), (''errorMessage'', PStr ''out of memory'')]]"

definition polls_queued_completed :: "pydict list" where
  "polls_queued_completed =
     [[(''status'', PStr ''Queued'')],
      [(''status'', PStr ''Completed''), (''items'', PList [])]]"

definition pipeline_run_response :: pydict where
  "pipeline_run_response =
     [(''status'', PStr ''Completed''), (''jobId'', PInt 5), (''items'', PList [])]"

definition polls_completed_no_payload :: "pydict list" where
  "polls_completed_no_payload = [[(''status'', PStr ''Completed''), (''jobId'', PInt 9)]]"

definition job_completed_no_payload :: job where
  "job_completed_no_payload =
     \<lparr>status = PStr ''Completed'', request_timestamp = PNone, start_timestamp = PNone,
      status_timestamp = PNone, error_message = PNone, cls = ContextualizationJob,
      job_id = PInt 9, result_cache = PDict [], status_path = PStr ''/jobs/'',
      pipeline_id = PNone\<rparr>"

definition job_completed_items :: job where
  "job_completed_items =
     \<lparr>status = PStr ''Completed'', request_timestamp = PNone, start_timestamp = PNone,
      status_timestamp = PNone, error_message = PNone, cls = ContextualizationJob,
      job_id = PInt 42, result_cache = PDict [(''items'', PList [])],
      status_path = PStr ''/jobs/'', pipeline_id = PNone\<rparr>"

section \<open>Serialising entities for predict\<close>

text \<open>
  \<^verbatim>\<open>
  @staticmethod
  def dump_entities(entities: List[Union[Dict, CogniteResource]]) -> Optional[List[Dict]]:
      if entities:
          return [
              {k: v for k, v in e.dump(camel_case=True).items() if isinstance(v, str) or k == "id"}
              if isinstance(e, CogniteResource)
              else e
              for e in entities
          ]
  \<close>
  An entity is either a \<^verbatim>\<open>CogniteResource\<close>, given here by the dictionary that its
  \<^verbatim>\<open>dump(camel_case=True)\<close> returns (the method belongs to the base SDK), or any other
  value, in practice a dict. A function that ends without \<^verbatim>\<open>return\<close> returns None.
\<close>

datatype entity = CogniteResource pydict | Other pyval

definition dump_entities :: "entity list option \<Rightarrow> pyval" where
  "dump_entities entities =
     (case entities of
        None \<Rightarrow> PNone
      | Some es \<Rightarrow>
          if es = [] then PNone
          else PList (map (\<lambda>e. case e of
                               CogniteResource dump \<Rightarrow>
                                 PDict (filter (\<lambda>kv. isinstance_str (snd kv) \<or> fst kv = ''id'') dump)
                             | Other v \<Rightarrow> v) es))"

text \<open>The entity \<^verbatim>\<open>{id: 7, name: "pump", score: 0.9}\<close>; 0.9 is the double \<open>8106479329266893 * 2^-53\<close>.\<close>

definition pump_fields :: pydict where
  "pump_fields =
     [(''id'', PInt 7), (''name'', PStr ''pump''), (''score'', PFloat 8106479329266893 (- 53))]"

section \<open>Refitting a model\<close>

text \<open>
  \<^verbatim>\<open>
  def refit(self, true_matches) -> "EntityMatchingModel":
      true_matches = [convert_true_match(true_match) for true_match in true_matches]
      self.wait_for_completion()
      response = self._cognite_client.entity_matching._camel_post(
          f"/refit", json={"trueMatches": true_matches, "id": self.id}
      )
      return self._load(response.json(), cognite_client=self._cognite_client)
  \<close>
  The list comprehension is \<open>convert_all\<close>; it stops at the first entry that raises.
  The POST request (\<open>camel_post\<close>, from the request body to the JSON of the response)
  and \<^verbatim>\<open>_load\<close> of the base SDK (\<open>load\<close>, which builds a new instance from a JSON
  object) are parameters. The result holds the model returned, then the receiver and the
  number of status requests issued.
\<close>

fun convert_all :: "pyval list \<Rightarrow> py_error + pyval list" where
  "convert_all [] = Inr []"
| "convert_all (true_match # rest) =
     (case convert_true_match true_match of
        Inl e \<Rightarrow> Inl e
      | Inr c \<Rightarrow> (case convert_all rest of Inl e \<Rightarrow> Inl e | Inr cs \<Rightarrow> Inr (c # cs)))"

definition model_refit ::
  "(nat \<Rightarrow> pydict) \<Rightarrow> (pyval \<Rightarrow> pydict) \<Rightarrow> (pydict \<Rightarrow> model) \<Rightarrow> model \<times> nat \<Rightarrow> pyval list \<Rightarrow>
     (py_error + model \<times> model \<times> nat) option" where
  "model_refit srv camel_post load s true_matches =
     (case convert_all true_matches of
        Inl e \<Rightarrow> Some (Inl e)
      | Inr converted \<Rightarrow>
          (case model_wait_for_completion srv s of
             None \<Rightarrow> None
           | Some (Inl e) \<Rightarrow> Some (Inl e)
           | Some (Inr s') \<Rightarrow>
               Some (Inr (load (camel_post (PDict [(''trueMatches'', PList converted),
                                                    (''id'', model_id (fst s'))])),
                          s'))))"

text \<open>A concrete service, loader and model for the examples below.\<close>

definition refit_response :: "pyval \<Rightarrow> pydict" where
  "refit_response body =
     [(''id'', PInt 4), (''status'', PStr ''Queued''), (''requestTimestamp'', PInt 1600000001000)]"

definition load_model :: "pydict \<Rightarrow> model" where
  "load_model d =
     \<lparr>status = dict_get d ''status'', request_timestamp = dict_get d ''requestTimestamp'',
      start_timestamp = dict_get d ''startTimestamp'',
      status_timestamp = dict_get d ''statusTimestamp'',
      error_message = dict_get d ''errorMessage'', model_id = dict_get d ''id'',
      classifier = dict_get d ''classifier'', feature_type = dict_get d ''featureType'',
      match_fields = dict_get d ''matchFields'', model_type = dict_get d ''modelType'',
      name = dict_get d ''name'', description = dict_get d ''description'',
      external_id = dict_get d ''externalId''\<rparr>"

definition fitted_model :: model where
  "fitted_model =
     \<lparr>status = PStr ''Queued'', request_timestamp = PInt 1600000000000,
      start_timestamp = PNone, status_timestamp = PNone, error_message = PNone,
      model_id = PInt 3, classifier = PStr ''RandomForest'', feature_type = PStr ''bigram'',
      match_fields = PNone, model_type = PNone, name = PStr ''pumps'', description = PNone,
      external_id = PNone\<rparr>"

definition polls_completed :: "pydict list" where
  "polls_completed =
     [[(''status'', PStr ''Completed''), (''statusTimestamp'', PInt 1600000000900)]]"

definition refitted_model :: model where
  "refitted_model =
     \<lparr>status = PStr ''Queued'', request_timestamp = PInt 1600000001000,
      start_timestamp = PNone, status_timestamp = PNone, error_message = PNone,
      model_id = PInt 4, classifier = PNone, feature_type = PNone,
      match_fields = PNone, model_type = PNone, name = PNone, description = PNone,
      external_id = PNone\<rparr>"

text \<open>
  The value of \<^verbatim>\<open>request_timestamp\<close> after the polls \<open>n\<close>, ..., \<open>n + k - 1\<close>: each
  poll executes \<^verbatim>\<open>self.request_timestamp or data.get("requestTimestamp")\<close>.
\<close>

definition polled_request_timestamp :: "(nat \<Rightarrow> pydict) \<Rightarrow> nat \<Rightarrow> nat \<Rightarrow> pyval \<Rightarrow> pyval" where
  "polled_request_timestamp srv n k rt =
     fold (\<lambda>i rt. py_or rt (dict_get (srv (n + i)) ''requestTimestamp'')) [0..<k] rt"

definition polls_queued_completed_at :: "pydict list" where
  "polls_queued_completed_at =
     [[(''status'', PStr ''Queued'')],
      [(''status'', PStr ''Completed''), (''startTimestamp'', PInt 1600000000400),
       (''statusTimestamp'', PInt 1600000000900)]]"

text \<open>\<open>same_fitted m m'\<close>: the two models agree on every attribute that is not a status field.\<close>

definition same_fitted :: "model \<Rightarrow> model \<Rightarrow> bool" where
  "same_fitted m m' =
     (model_id m' = model_id m \<and> classifier m' = classifier m
      \<and> feature_type m' = feature_type m \<and> match_fields m' = match_fields m
      \<and> model_type m' = model_type m \<and> name m' = name m
      \<and> description m' = description m \<and> external_id m' = external_id m)"

section \<open>Related resources of an asset list\<close>

text \<open>
  \<^verbatim>\<open>
  def _retrieve_related_resources(self, resource_list_class, resource_api):
      seen = set()
      lock = threading.Lock()

      def retrieve_and_deduplicate(asset_ids):
          res = resource_api.list(asset_ids=asset_ids, limit=-1)
          resources = resource_list_class([])
          with lock:
              for resource in res:
                  if resource.id not in seen:
                      resources.append(resource)
                      seen.add(resource.id)
          return resources

      ids = [a.id for a in self.data]
      tasks = []
      for i in range(0, len(ids), self._retrieve_chunk_size):
          tasks.append({"asset_ids": ids[i : i + self._retrieve_chunk_size]})
      res_list = utils._concurrency.execute_tasks_concurrently(
          retrieve_and_deduplicate, tasks, resource_api._config.max_workers
      ).results
      resources = resource_list_class([])
      for res in res_list:
          resources.extend(res)
      return resources
  \<close>
  An asset list is given by the ids of its assets (\<open>data\<close>) and its chunk size, which
  \<^verbatim>\<open>__init__\<close> sets to 100. \<open>list_api\<close> is \<^verbatim>\<open>resource_api.list\<close>. The block under
  \<^verbatim>\<open>with lock\<close> (\<open>dedup_loop\<close>) runs for one task at a time, so a concurrent
  execution is determined by the order in which the tasks enter it: the parameter
  \<open>sched\<close>, a list of task indices (an index that names no task is skipped). The
  executor of the base SDK returns the results in the order of the tasks.
  \<^verbatim>\<open>range\<close> with step 0 raises ValueError.
\<close>

record resource =
  res_id :: pyval
  res_name :: string

record asset_list =
  data :: "pyval list"
  retrieve_chunk_size :: nat

fun dedup_loop :: "resource list \<Rightarrow> pyval set \<Rightarrow> resource list \<Rightarrow> resource list \<times> pyval set" where
  "dedup_loop [] seen resources = (resources, seen)"
| "dedup_loop (r # res) seen resources =
     (if res_id r \<notin> seen then dedup_loop res (insert (res_id r) seen) (resources @ [r])
      else dedup_loop res seen resources)"

definition retrieve_and_deduplicate ::
  "(pyval list \<Rightarrow> resource list) \<Rightarrow> pyval set \<Rightarrow> pyval list \<Rightarrow> resource list \<times> pyval set" where
  "retrieve_and_deduplicate list_api seen asset_ids = dedup_loop (list_api asset_ids) seen []"

definition asset_id_tasks :: "nat \<Rightarrow> pyval list \<Rightarrow> pyval list list" where
  "asset_id_tasks chunk ids =
     map (\<lambda>k. take chunk (drop (k * chunk) ids)) [0..<(length ids + chunk - 1) div chunk]"

fun run_tasks ::
  "(pyval list \<Rightarrow> resource list) \<Rightarrow> pyval list list \<Rightarrow> nat list \<Rightarrow> pyval set \<Rightarrow>
     (nat \<Rightarrow> resource list) \<Rightarrow> (nat \<Rightarrow> resource list) \<times> pyval set" where
  "run_tasks list_api tasks [] seen results = (results, seen)"
| "run_tasks list_api tasks (i # sched) seen results =
     (if i < length tasks then
        (let (resources, seen') = retrieve_and_deduplicate list_api seen (tasks ! i)
         in run_tasks list_api tasks sched seen' (results(i := resources)))
      else run_tasks list_api tasks sched seen results)"

definition retrieve_related_resources ::
  "(pyval list \<Rightarrow> resource list) \<Rightarrow> nat list \<Rightarrow> asset_list \<Rightarrow> py_error + resource list" where
  "retrieve_related_resources list_api sched self =
     (if retrieve_chunk_size self = 0 then Inl ValueError
      else
        let tasks = asset_id_tasks (retrieve_chunk_size self) (data self);
            res_list = fst (run_tasks list_api tasks sched {} (\<lambda>i. []))
        in Inr (concat (map res_list [0..<length tasks])))"

text \<open>
  The invariant of \<open>run_tasks\<close>: every task's result has distinct ids, all of them
  seen, and the results of two different tasks share no id.
\<close>

definition results_inv :: "pyval set \<Rightarrow> (nat \<Rightarrow> resource list) \<Rightarrow> bool" where
  "results_inv seen results =
     ((\<forall>i. distinct (map res_id (results i)) \<and> res_id ` set (results i) \<subseteq> seen)
      \<and> (\<forall>i j. i = j \<or> res_id ` set (results i) \<inter> res_id ` set (results j) = {}))"

text \<open>
  Three parents in batches of two, each batch linked to the same five related resources.
\<close>

definition five_resources :: "resource list" where
  "five_resources =
     [\<lparr>res_id = PInt 100, res_name = ''R100''\<rparr>, \<lparr>res_id = PInt 101, res_name = ''R101''\<rparr>,
      \<lparr>res_id = PInt 102, res_name = ''R102''\<rparr>, \<lparr>res_id = PInt 103, res_name = ''R103''\<rparr>,
      \<lparr>res_id = PInt 104, res_name = ''R104''\<rparr>]"

definition list_overlapping :: "pyval list \<Rightarrow> resource list" where
  "list_overlapping asset_ids = (if asset_ids = [] then [] else five_resources)"

definition three_parents :: asset_list where
  "three_parents = \<lparr>data = [PInt 1, PInt 2, PInt 3], retrieve_chunk_size = 2\<rparr>"

section \<open>Updates of types and labels on an asset\<close>

text \<open>
  An \<^verbatim>\<open>AssetUpdate\<close> accumulates its changes in the dictionary \<^verbatim>\<open>_update_object\<close>
  (\<open>update_object\<close>), which the base class starts empty.
  \<^verbatim>\<open>
  @property
  def types(self):
      raise Exception("Use the put_type and remove_type functions to handle type updates")

  def put_type(self, properties, version, id=None, external_id=None):
      if self._update_object.get("types") is None:
          self._update_object["types"] = {}
      if self._update_object["types"].get("put") is None:
          self._update_object["types"]["put"] = []
      self._update_object["types"]["put"].append(
          {"type": {"id": id, "externalId": external_id, "version": version}, "properties": properties}
      )
      return self
  \<close>
  \<^verbatim>\<open>remove_type\<close>, \<^verbatim>\<open>put_label\<close> and \<^verbatim>\<open>remove_label\<close> repeat the three statements
  of \<^verbatim>\<open>put_type\<close> with other keys and another entry; \<open>append_under\<close> is these three
  statements for a given field, bucket and entry. Calling \<^verbatim>\<open>.get\<close> on a value that is
  not a dict, or \<^verbatim>\<open>.append\<close> on one that is not a list, raises AttributeError. The
  parameters \<^verbatim>\<open>id\<close> and \<^verbatim>\<open>external_id\<close> are written \<open>id'\<close> and \<open>external_id'\<close>.
\<close>

record asset_update =
  update_object :: pydict

definition types :: "asset_update \<Rightarrow> py_error + pyval" where
  "types self =
     Inl (Exception ''Use the put_type and remove_type functions to handle type updates'')"

definition labels :: "asset_update \<Rightarrow> py_error + pyval" where
  "labels self =
     Inl (Exception ''Use the put_label and remove_label functions to handle label updates'')"

definition set_if_none :: "pydict \<Rightarrow> string \<Rightarrow> pyval \<Rightarrow> pydict" where
  "set_if_none d k v = (if dict_get d k = PNone then dict_set d k v else d)"

definition append_under :: "pydict \<Rightarrow> string \<Rightarrow> string \<Rightarrow> pyval \<Rightarrow> py_error + pydict" where
  "append_under uo field bucket entry =
     (let uo1 = set_if_none uo field (PDict []) in
      case dict_get uo1 field of
        PDict fd \<Rightarrow>
          (let fd1 = set_if_none fd bucket (PList []) in
           case dict_get fd1 bucket of
             PList xs \<Rightarrow>
               Inr (dict_set uo1 field (PDict (dict_set fd1 bucket (PList (xs @ [entry])))))
           | _ \<Rightarrow> Inl AttributeError)
      | _ \<Rightarrow> Inl AttributeError)"

definition put_type ::
  "asset_update \<Rightarrow> pyval \<Rightarrow> pyval \<Rightarrow> pyval \<Rightarrow> pyval \<Rightarrow> py_error + asset_update" where
  "put_type self properties version id' external_id' =
     (case append_under (update_object self) ''types'' ''put''
             (PDict [(''type'', PDict [(''id'', id'), (''externalId'', external_id'),
                                        (''version'', version)]),
                     (''properties'', properties)]) of
        Inl e \<Rightarrow> Inl e
      | Inr uo \<Rightarrow> Inr (self\<lparr>update_object := uo\<rparr>))"

definition remove_type ::
  "asset_update \<Rightarrow> pyval \<Rightarrow> pyval \<Rightarrow> pyval \<Rightarrow> py_error + asset_update" where
  "remove_type self version id' external_id' =
     (case append_under (update_object self) ''types'' ''remove''
             (PDict [(''id'', id'), (''externalId'', external_id'), (''version'', version)]) of
        Inl e \<Rightarrow> Inl e
      | Inr uo \<Rightarrow> Inr (self\<lparr>update_object := uo\<rparr>))"

definition put_label :: "asset_update \<Rightarrow> pyval \<Rightarrow> py_error + asset_update" where
  "put_label self external_id' =
     (case append_under (update_object self) ''labels'' ''put''
             (PDict [(''externalId'', external_id')]) of
        Inl e \<Rightarrow> Inl e
      | Inr uo \<Rightarrow> Inr (self\<lparr>update_object := uo\<rparr>))"

definition remove_label :: "asset_update \<Rightarrow> pyval \<Rightarrow> py_error + asset_update" where
  "remove_label self external_id' =
     (case append_under (update_object self) ''labels'' ''remove''
             (PDict [(''externalId'', external_id')]) of
        Inl e \<Rightarrow> Inl e
      | Inr uo \<Rightarrow> Inr (self\<lparr>update_object := uo\<rparr>))"

text \<open>
  What the four operations maintain: under \<open>types\<close> and under \<open>labels\<close> there is
  nothing, or a dict whose \<open>put\<close> and \<open>remove\<close> are nothing or a list. \<open>recorded\<close>
  reads the entries under a field and bucket, empty when there are none.
\<close>

fun none_or_list :: "pyval \<Rightarrow> bool" where
  "none_or_list PNone = True"
| "none_or_list (PList xs) = True"
| "none_or_list v = False"

fun buckets_ok :: "pyval \<Rightarrow> bool" where
  "buckets_ok PNone = True"
| "buckets_ok (PDict fd) =
     (none_or_list (dict_get fd ''put'') \<and> none_or_list (dict_get fd ''remove''))"
| "buckets_ok v = False"

definition well_formed :: "asset_update \<Rightarrow> bool" where
  "well_formed self =
     (buckets_ok (dict_get (update_object self) ''types'')
      \<and> buckets_ok (dict_get (update_object self) ''labels''))"

fun list_items :: "pyval \<Rightarrow> pyval list" where
  "list_items (PList xs) = xs"
| "list_items v = []"

fun dict_items :: "pyval \<Rightarrow> pydict" where
  "dict_items (PDict d) = d"
| "dict_items v = []"

definition recorded :: "asset_update \<Rightarrow> string \<Rightarrow> string \<Rightarrow> pyval list" where
  "recorded self field bucket =
     list_items (dict_get (dict_items (dict_get (update_object self) field)) bucket)"

section \<open>Properties of true-match normalisation\<close>

lemma convert_loop_pair:
  "convert_loop (PTuple [a, b]) (enumerate 0 [''from'', ''to'']) [] =
     Inr [(if isinstance_str a then ''fromExternalId'' else ''fromId'', a),
          (if isinstance_str b then ''toExternalId'' else ''toId'', b)]"
  "convert_loop (PList [a, b]) (enumerate 0 [''from'', ''to'']) [] =
     Inr [(if isinstance_str a then ''fromExternalId'' else ''fromId'', a),
          (if isinstance_str b then ''toExternalId'' else ''toId'', b)]"
  by simp_all

text \<open>
  C6. A two-element pair (a tuple or a list) is converted to an object with two keys:
  the first is \<open>fromExternalId\<close> when the first element is a string and \<open>fromId\<close>
  otherwise, the second is \<open>toExternalId\<close> when the second element is a string and
  \<open>toId\<close> otherwise. An entry that is already a dict is returned unchanged.
\<close>

theorem convert_true_match_pair:
  "convert_true_match (PTuple [a, b]) =
     Inr (PDict [(if isinstance_str a then ''fromExternalId'' else ''fromId'', a),
                 (if isinstance_str b then ''toExternalId'' else ''toId'', b)])
   \<and> convert_true_match (PList [a, b]) =
     Inr (PDict [(if isinstance_str a then ''fromExternalId'' else ''fromId'', a),
                 (if isinstance_str b then ''toExternalId'' else ''toId'', b)])
   \<and> convert_true_match (PDict d) = Inr (PDict d)"
  unfolding convert_true_match_def
  by (simp only: convert_loop_pair isinstance_dict.simps py_len.simps
        list.size sum.case if_True if_False) simp

lemma convert_true_match_examples:
  "convert_true_match (PTuple [PInt 101, PStr ''ext-5'']) =
     Inr (PDict [(''fromId'', PInt 101), (''toExternalId'', PStr ''ext-5'')])"
  "convert_true_match (PTuple [PStr ''ext-1'', PStr ''ext-2'']) =
     Inr (PDict [(''fromExternalId'', PStr ''ext-1''), (''toExternalId'', PStr ''ext-2'')])"
  by (simp_all add: convert_true_match_def)

section \<open>Properties of status polling\<close>

lemma scripted_simps:
  "scripted (r # rs) 0 = r"
  "scripted [r] k = r"
  "scripted (r # r' # rs) (Suc k) = scripted (r' # rs) k"
  by (auto simp: scripted_def)

text \<open>
  C1, as stated, fails. A handle polled twice, where the first response carries
  \<open>startTimestamp\<close> and \<open>statusTimestamp\<close> and the second omits both: after the first
  call both fields are set, after the second both are None again.
\<close>

theorem update_status_resets_timestamps:
  "job_update_status (scripted polls_timestamps_then_omitted)
       (job_init ContextualizationJob (PInt 7) (PStr ''/jobs/''), 0) =
     Inr (job_after_first_poll, 1)
   \<and> start_timestamp job_after_first_poll = PInt 1600000000000
   \<and> status_timestamp job_after_first_poll = PInt 1600000000500
   \<and> job_update_status (scripted polls_timestamps_then_omitted) (job_after_first_poll, 1) =
     Inr (job_after_first_poll\<lparr>start_timestamp := PNone, status_timestamp := PNone\<rparr>, 2)"
  by (simp add: job_update_status_def polls_timestamps_then_omitted_def job_init_def
      job_after_first_poll_def scripted_def dict_get_def py_or_def
      ContextualizationJob_COMMON_FIELDS_def)

text \<open>
  C1, amended. After every \<open>update_status\<close> that returns, of a job and of a model alike,
  \<open>start_timestamp\<close> and \<open>status_timestamp\<close> are exactly what the response holds under
  \<open>startTimestamp\<close> and \<open>statusTimestamp\<close>, None when the response omits the key: a
  value set earlier stays non-null only if the response carries a non-null value.
\<close>

theorem update_status_timestamps_from_response:
  "(job_update_status srv (j, n) = Inr (j', n') \<longrightarrow>
      start_timestamp j' = dict_get (srv n) ''startTimestamp''
      \<and> status_timestamp j' = dict_get (srv n) ''statusTimestamp'')
   \<and> (model_update_status srv (m, n) = Inr (m', n') \<longrightarrow>
      start_timestamp m' = dict_get (srv n) ''startTimestamp''
      \<and> status_timestamp m' = dict_get (srv n) ''statusTimestamp'')"
  by (auto simp: job_update_status_def model_update_status_def Let_def split: option.splits)

theorem update_status_timestamps_from_response_witness:
  "job_update_status (scripted polls_timestamps_then_omitted)
       (job_init ContextualizationJob (PInt 7) (PStr ''/jobs/''), 0) =
     Inr (job_after_first_poll, 1)
   \<and> start_timestamp job_after_first_poll = PInt 1600000000000
   \<and> status_timestamp job_after_first_poll = PInt 1600000000500
   \<and> model_update_status (scripted polls_timestamps_then_omitted) (model_init (PInt 3), 0) =
     Inr ((model_init (PInt 3))\<lparr>status := PStr ''Running'',
            start_timestamp := PInt 1600000000000,
            status_timestamp := PInt 1600000000500\<rparr>, 1)"
  using update_status_timestamps_from_response
    [of "scripted polls_timestamps_then_omitted"
        "job_init ContextualizationJob (PInt 7) (PStr ''/jobs/'')" 0 job_after_first_poll 1
        "model_init (PInt 3)"
        "(model_init (PInt 3))\<lparr>status := PStr ''Running'',
            start_timestamp := PInt 1600000000000,
            status_timestamp := PInt 1600000000500\<rparr>"]
  by (simp add: job_update_status_def model_update_status_def polls_timestamps_then_omitted_def
      job_init_def model_init_def
      job_after_first_poll_def scripted_def dict_get_def py_or_def
      ContextualizationJob_COMMON_FIELDS_def)

section \<open>Properties of waiting for completion\<close>

lemma job_update_status_Inr:
  "map_of (srv n) ''status'' = Some st \<Longrightarrow>
   \<exists>j'. job_update_status srv (j, n) = Inr (j', Suc n) \<and> status j' = st
     \<and> error_message j' = dict_get (srv n) ''errorMessage''
     \<and> job_id j' = job_id j \<and> cls j' = cls j"
  by (simp add: job_update_status_def Let_def)

lemma job_poll_loop_terminal:
  assumes "map_of (srv n) ''status'' = Some st" "st \<noteq> PStr ''Queued''" "st \<noteq> PStr ''Running''"
  shows "\<exists>j'. job_poll_loop srv (j, n) = Some (Inr (j', Suc n)) \<and> status j' = st
     \<and> error_message j' = dict_get (srv n) ''errorMessage''
     \<and> job_id j' = job_id j \<and> cls j' = cls j"
proof -
  from job_update_status_Inr[of srv n st j] assms(1) obtain j' where
    j': "job_update_status srv (j, n) = Inr (j', Suc n)" "status j' = st"
     "error_message j' = dict_get (srv n) ''errorMessage''"
     "job_id j' = job_id j" "cls j' = cls j" by blast
  have "job_poll_loop srv (j, n) = Some (Inr (j', Suc n))"
    by (subst job_poll_loop.simps) (simp add: j' assms)
  with j' show ?thesis by blast
qed

lemma job_poll_loop_continue:
  assumes "map_of (srv n) ''status'' = Some st" "st = PStr ''Queued'' \<or> st = PStr ''Running''"
  shows "\<exists>j'. job_poll_loop srv (j, n) = job_poll_loop srv (j', Suc n)
     \<and> job_id j' = job_id j \<and> cls j' = cls j"
proof -
  from job_update_status_Inr[of srv n st j] assms(1) obtain j' where
    j': "job_update_status srv (j, n) = Inr (j', Suc n)" "status j' = st"
     "job_id j' = job_id j" "cls j' = cls j" by blast
  have "job_poll_loop srv (j, n) = job_poll_loop srv (j', Suc n)"
    by (subst job_poll_loop.simps) (use assms(2) in \<open>auto simp add: j'\<close>)
  with j' show ?thesis by blast
qed

lemma job_wait_failed:
  assumes "map_of (srv n) ''status'' = Some (PStr ''Queued'')"
    "map_of (srv (Suc n)) ''status'' = Some (PStr ''Running'')"
    "map_of (srv (Suc (Suc n))) ''status'' = Some (PStr ''Failed'')"
  shows "job_wait_for_completion srv (j, n) =
     Some (Inl (ModelFailedException (class_name (cls j)) (job_id j)
                  (dict_get (srv (Suc (Suc n))) ''errorMessage'')))"
proof -
  from job_poll_loop_continue[of srv n "PStr ''Queued''" j] assms(1) obtain j1 where
    j1: "job_poll_loop srv (j, n) = job_poll_loop srv (j1, Suc n)"
      "job_id j1 = job_id j" "cls j1 = cls j" by blast
  from job_poll_loop_continue[of srv "Suc n" "PStr ''Running''" j1] assms(2) obtain j2 where
    j2: "job_poll_loop srv (j1, Suc n) = job_poll_loop srv (j2, Suc (Suc n))"
      "job_id j2 = job_id j1" "cls j2 = cls j1" by blast
  from job_poll_loop_terminal[of srv "Suc (Suc n)" "PStr ''Failed''" j2] assms(3) obtain j3 where
    j3: "job_poll_loop srv (j2, Suc (Suc n)) = Some (Inr (j3, Suc (Suc (Suc n))))"
      "status j3 = PStr ''Failed''"
      "error_message j3 = dict_get (srv (Suc (Suc n))) ''errorMessage''"
      "job_id j3 = job_id j2" "cls j3 = cls j2" by auto
  show ?thesis
    by (simp add: job_wait_for_completion_def j1 j2 j3)
qed

lemma job_wait_other:
  assumes "map_of (srv n) ''status'' = Some (PStr ''Queued'')"
    "map_of (srv (Suc n)) ''status'' = Some st"
    "st \<noteq> PStr ''Queued''" "st \<noteq> PStr ''Running''" "st \<noteq> PStr ''Failed''"
  shows "\<exists>j'. job_wait_for_completion srv (j, n) = Some (Inr (j', Suc (Suc n))) \<and> status j' = st"
proof -
  from job_poll_loop_continue[of srv n "PStr ''Queued''" j] assms(1) obtain j1 where
    j1: "job_poll_loop srv (j, n) = job_poll_loop srv (j1, Suc n)" by blast
  from job_poll_loop_terminal[of srv "Suc n" st j1] assms(2,3,4) obtain j2 where
    j2: "job_poll_loop srv (j1, Suc n) = Some (Inr (j2, Suc (Suc n)))"
      "status j2 = st" by auto
  show ?thesis
    by (simp add: job_wait_for_completion_def j1 j2 assms(5))
qed

lemma model_update_status_Inr:
  "map_of (srv n) ''status'' = Some st \<Longrightarrow>
   \<exists>m'. model_update_status srv (m, n) = Inr (m', Suc n) \<and> status m' = st
     \<and> error_message m' = dict_get (srv n) ''errorMessage''
     \<and> model_id m' = model_id m"
  by (simp add: model_update_status_def Let_def)

lemma model_poll_loop_terminal:
  assumes "map_of (srv n) ''status'' = Some st" "st \<noteq> PStr ''Queued''" "st \<noteq> PStr ''Running''"
  shows "\<exists>m'. model_poll_loop srv (m, n) = Some (Inr (m', Suc n)) \<and> status m' = st
     \<and> error_message m' = dict_get (srv n) ''errorMessage''
     \<and> model_id m' = model_id m"
proof -
  from model_update_status_Inr[of srv n st m] assms(1) obtain m' where
    m': "model_update_status srv (m, n) = Inr (m', Suc n)" "status m' = st"
     "error_message m' = dict_get (srv n) ''errorMessage''"
     "model_id m' = model_id m" by blast
  have "model_poll_loop srv (m, n) = Some (Inr (m', Suc n))"
    by (subst model_poll_loop.simps) (simp add: m' assms)
  with m' show ?thesis by blast
qed

lemma model_poll_loop_continue:
  assumes "map_of (srv n) ''status'' = Some st" "st = PStr ''Queued'' \<or> st = PStr ''Running''"
  shows "\<exists>m'. model_poll_loop srv (m, n) = model_poll_loop srv (m', Suc n)
     \<and> model_id m' = model_id m"
proof -
  from model_update_status_Inr[of srv n st m] assms(1) obtain m' where
    m': "model_update_status srv (m, n) = Inr (m', Suc n)" "status m' = st"
     "model_id m' = model_id m" by blast
  have "model_poll_loop srv (m, n) = model_poll_loop srv (m', Suc n)"
    by (subst model_poll_loop.simps) (use assms(2) in \<open>auto simp add: m'\<close>)
  with m' show ?thesis by blast
qed

lemma model_wait_failed:
  assumes "map_of (srv n) ''status'' = Some (PStr ''Queued'')"
    "map_of (srv (Suc n)) ''status'' = Some (PStr ''Running'')"
    "map_of (srv (Suc (Suc n))) ''status'' = Some (PStr ''Failed'')"
  shows "model_wait_for_completion srv (m, n) =
     Some (Inl (ModelFailedException ''EntityMatchingModel'' (model_id m)
                  (dict_get (srv (Suc (Suc n))) ''errorMessage'')))"
proof -
  from model_poll_loop_continue[of srv n "PStr ''Queued''" m] assms(1) obtain m1 where
    m1: "model_poll_loop srv (m, n) = model_poll_loop srv (m1, Suc n)"
      "model_id m1 = model_id m" by blast
  from model_poll_loop_continue[of srv "Suc n" "PStr ''Running''" m1] assms(2) obtain m2 where
    m2: "model_poll_loop srv (m1, Suc n) = model_poll_loop srv (m2, Suc (Suc n))"
      "model_id m2 = model_id m1" by blast
  from model_poll_loop_terminal[of srv "Suc (Suc n)" "PStr ''Failed''" m2] assms(3) obtain m3 where
    m3: "model_poll_loop srv (m2, Suc (Suc n)) = Some (Inr (m3, Suc (Suc (Suc n))))"
      "status m3 = PStr ''Failed''"
      "error_message m3 = dict_get (srv (Suc (Suc n))) ''errorMessage''"
      "model_id m3 = model_id m2" by auto
  show ?thesis
    by (simp add: model_wait_for_completion_def m1 m2 m3)
qed

lemma model_wait_other:
  assumes "map_of (srv n) ''status'' = Some (PStr ''Queued'')"
    "map_of (srv (Suc n)) ''status'' = Some st"
    "st \<noteq> PStr ''Queued''" "st \<noteq> PStr ''Running''" "st \<noteq> PStr ''Failed''"
  shows "\<exists>m'. model_wait_for_completion srv (m, n) = Some (Inr (m', Suc (Suc n))) \<and> status m' = st"
proof -
  from model_poll_loop_continue[of srv n "PStr ''Queued''" m] assms(1) obtain m1 where
    m1: "model_poll_loop srv (m, n) = model_poll_loop srv (m1, Suc n)" by blast
  from model_poll_loop_terminal[of srv "Suc n" st m1] assms(2,3,4) obtain m2 where
    m2: "model_poll_loop srv (m1, Suc n) = Some (Inr (m2, Suc (Suc n)))"
      "status m2 = st" by auto
  show ?thesis
    by (simp add: model_wait_for_completion_def m1 m2 assms(5))
qed

text \<open>
  C3. When three successive polls of a handle report \<open>Queued\<close>, \<open>Running\<close>, \<open>Failed\<close>,
  \<open>wait_for_completion\<close> raises \<open>ModelFailedException\<close> with the class name of the
  handle, its job id (the id of a model) and the \<open>errorMessage\<close> of the last poll.
  When two successive polls report \<open>Queued\<close> and then any status other than \<open>Queued\<close>,
  \<open>Running\<close> and \<open>Failed\<close>, it returns after the second poll without raising. Both
  hold for jobs and for models.
\<close>

theorem wait_for_completion_terminal_contract:
  "(map_of (srv n) ''status'' = Some (PStr ''Queued'')
    \<and> map_of (srv (Suc n)) ''status'' = Some (PStr ''Running'')
    \<and> map_of (srv (Suc (Suc n))) ''status'' = Some (PStr ''Failed'') \<longrightarrow>
      job_wait_for_completion srv (j, n) =
        Some (Inl (ModelFailedException (class_name (cls j)) (job_id j)
                     (dict_get (srv (Suc (Suc n))) ''errorMessage'')))
      \<and> model_wait_for_completion srv (m, n) =
        Some (Inl (ModelFailedException ''EntityMatchingModel'' (model_id m)
                     (dict_get (srv (Suc (Suc n))) ''errorMessage''))))
   \<and> (map_of (srv n) ''status'' = Some (PStr ''Queued'')
      \<and> map_of (srv (Suc n)) ''status'' = Some st
      \<and> st \<noteq> PStr ''Queued'' \<and> st \<noteq> PStr ''Running'' \<and> st \<noteq> PStr ''Failed'' \<longrightarrow>
      (\<exists>j'. job_wait_for_completion srv (j, n) = Some (Inr (j', Suc (Suc n))) \<and> status j' = st)
      \<and> (\<exists>m'. model_wait_for_completion srv (m, n) = Some (Inr (m', Suc (Suc n)))
            \<and> status m' = st))"
  using job_wait_failed[of srv n j] model_wait_failed[of srv n m]
    job_wait_other[of srv n st j] model_wait_other[of srv n st m]
  by blast

theorem wait_for_completion_terminal_contract_witness:
  "job_wait_for_completion (scripted polls_queued_running_failed)
       (job_init EntityMatchingPipelineRun (PInt 42) (PStr ''/jobs/''), 0) =
     Some (Inl (ModelFailedException ''EntityMatchingPipelineRun'' (PInt 42)
                  (PStr ''out of memory'')))
   \<and> model_wait_for_completion (scripted polls_queued_running_failed) (model_init (PInt 3), 0) =
     Some (Inl (ModelFailedException ''EntityMatchingModel'' (PInt 3) (PStr ''out of memory'')))
   \<and> (\<exists>j'. job_wait_for_completion (scripted polls_queued_completed)
              (job_init ContextualizationJob (PInt 42) (PStr ''/jobs/''), 0) = Some (Inr (j', 2))
           \<and> status j' = PStr ''Completed'')
   \<and> (\<exists>m'. model_wait_for_completion (scripted polls_queued_completed)
              (model_init (PInt 3), 0) = Some (Inr (m', 2))
           \<and> status m' = PStr ''Completed'')"
  using wait_for_completion_terminal_contract
      [where srv = "scripted polls_queued_running_failed" and n = 0
         and j = "job_init EntityMatchingPipelineRun (PInt 42) (PStr ''/jobs/'')"
         and m = "model_init (PInt 3)"]
    wait_for_completion_terminal_contract
      [where srv = "scripted polls_queued_completed" and n = 0 and st = "PStr ''Completed''"
         and j = "job_init ContextualizationJob (PInt 42) (PStr ''/jobs/'')"
         and m = "model_init (PInt 3)"]
  by (simp add: scripted_def polls_queued_running_failed_def polls_queued_completed_def
      job_init_def model_init_def dict_get_def numeral_2_eq_2)

section \<open>Properties of the cached result\<close>

lemma job_update_status_result_cache:
  "job_update_status srv (j, n) = Inr (j', n') \<Longrightarrow>
     result_cache j' = PDict (filter (\<lambda>kv. fst kv \<notin> COMMON_FIELDS (cls j)) (srv n))"
  by (auto simp: job_update_status_def Let_def split: option.splits)

lemma EntityMatchingPipelineRun_COMMON_FIELDS_empty:
  "EntityMatchingPipelineRun_COMMON_FIELDS = {}"
  by (simp add: EntityMatchingPipelineRun_COMMON_FIELDS_def ContextualizationJob_COMMON_FIELDS_def)

lemma ContextualizationJob_result_excludes_common_fields:
  assumes "cls j = ContextualizationJob" "job_update_status srv (j, n) = Inr (j', n')"
  shows "result_cache j' =
     PDict (filter (\<lambda>kv. fst kv \<notin> {''status'', ''jobId'', ''errorMessage'', ''requestTimestamp'',
                                    ''startTimestamp'', ''statusTimestamp''}) (srv n))"
  using job_update_status_result_cache[OF assms(2)] assms(1)
  by (simp add: ContextualizationJob_COMMON_FIELDS_def)

lemma EntityMatchingPipelineRun_result_is_whole_response:
  assumes "cls j = EntityMatchingPipelineRun" "job_update_status srv (j, n) = Inr (j', n')"
  shows "result_cache j' = PDict (srv n)"
  using job_update_status_result_cache[OF assms(2)] assms(1)
  by (simp add: EntityMatchingPipelineRun_COMMON_FIELDS_empty)

text \<open>
  C2, evaluated on the code. One response with the common fields \<open>status\<close> and \<open>jobId\<close>
  and the payload field \<open>items\<close>: an \<^verbatim>\<open>EntityMatchingPipelineRun\<close> caches the whole
  response, common fields included (its \<^verbatim>\<open>_COMMON_FIELDS\<close> is the intersection of the
  six names with \<^verbatim>\<open>{"pipeline_id"}\<close>, which is empty), while a
  \<^verbatim>\<open>ContextualizationJob\<close> caches \<open>items\<close> only.
\<close>

theorem pipeline_run_result_keeps_common_fields:
  "job_update_status (scripted [pipeline_run_response])
       (job_init EntityMatchingPipelineRun (PInt 5) (PStr ''/runs/''), 0) =
     Inr ((job_init EntityMatchingPipelineRun (PInt 5) (PStr ''/runs/''))
            \<lparr>status := PStr ''Completed'',
             result_cache :=
               PDict [(''status'', PStr ''Completed''), (''jobId'', PInt 5),
                      (''items'', PList [])]\<rparr>, 1)
   \<and> job_update_status (scripted [pipeline_run_response])
       (job_init ContextualizationJob (PInt 5) (PStr ''/jobs/''), 0) =
     Inr ((job_init ContextualizationJob (PInt 5) (PStr ''/jobs/''))
            \<lparr>status := PStr ''Completed'',
             result_cache := PDict [(''items'', PList [])]\<rparr>, 1)"
  by (simp add: job_update_status_def scripted_def pipeline_run_response_def job_init_def
      dict_get_def py_or_def EntityMatchingPipelineRun_COMMON_FIELDS_def
      ContextualizationJob_COMMON_FIELDS_def)

text \<open>
  C4, as stated, fails. A job whose final response holds common fields only caches the
  empty payload, which \<^verbatim>\<open>not self._result\<close> takes for no result: the second access of
  \<open>result\<close> polls again (the number of requests goes from 1 to 2).
\<close>

theorem result_polls_again_on_empty_payload:
  "job_result (scripted polls_completed_no_payload)
       (job_init ContextualizationJob (PInt 9) (PStr ''/jobs/''), 0) =
     Some (Inr (PDict [], job_completed_no_payload, 1))
   \<and> job_result (scripted polls_completed_no_payload) (job_completed_no_payload, 1) =
     Some (Inr (PDict [], job_completed_no_payload, 2))"
  by (simp add: job_result_def job_wait_for_completion_def job_poll_loop.simps
      job_update_status_def scripted_def polls_completed_no_payload_def job_init_def
      job_completed_no_payload_def dict_get_def py_or_def
      ContextualizationJob_COMMON_FIELDS_def)

lemma job_result_returns_cache:
  "job_result srv s = Some (Inr (v, s')) \<Longrightarrow> result_cache (fst s') = v"
  by (auto simp: job_result_def split: if_splits option.splits sum.splits)

text \<open>
  C4, amended. When an access of \<open>result\<close> has returned a non-empty payload, the next
  access returns the same payload and leaves the handle and the number of requests
  issued unchanged.
\<close>

theorem result_cached_when_nonempty:
  "job_result srv (j, n) = Some (Inr (v, j', n')) \<and> truthy v \<longrightarrow>
     job_result srv (j', n') = Some (Inr (v, j', n'))"
proof
  assume a: "job_result srv (j, n) = Some (Inr (v, j', n')) \<and> truthy v"
  then have "result_cache j' = v"
    using job_result_returns_cache[of srv "(j, n)" v "(j', n')"] by simp
  with a show "job_result srv (j', n') = Some (Inr (v, j', n'))"
    by (simp add: job_result_def)
qed

theorem result_cached_when_nonempty_witness:
  "job_result (scripted polls_queued_completed)
       (job_init ContextualizationJob (PInt 42) (PStr ''/jobs/''), 0) =
     Some (Inr (PDict [(''items'', PList [])], job_completed_items, 2))
   \<and> truthy (PDict [(''items'', PList [])])
   \<and> job_result (scripted polls_queued_completed) (job_completed_items, 2) =
     Some (Inr (PDict [(''items'', PList [])], job_completed_items, 2))"
  using result_cached_when_nonempty
    [of "scripted polls_queued_completed"
        "job_init ContextualizationJob (PInt 42) (PStr ''/jobs/'')" 0
        "PDict [(''items'', PList [])]" job_completed_items 2]
  by (simp add: job_result_def job_wait_for_completion_def job_poll_loop.simps
      job_update_status_def scripted_def polls_queued_completed_def job_init_def
      job_completed_items_def dict_get_def py_or_def
      ContextualizationJob_COMMON_FIELDS_def)

section \<open>True-match entries of other shapes\<close>

text \<open>
  C10, as stated, fails. An entry that is neither a dict nor a two-element sequence and
  has no length (here the number 7) makes \<^verbatim>\<open>len\<close> raise TypeError.
\<close>

theorem convert_true_match_unsized_raises:
  "\<not> isinstance_dict (PInt 7) \<and> py_len (PInt 7) = Inl TypeError
   \<and> convert_true_match (PInt 7) = Inl TypeError"
  by (simp add: convert_true_match_def)

text \<open>
  C10, amended. An entry that is not a dict and has a length other than 2 (a list, a
  tuple or a string) is returned unchanged without an error; an entry that has no length
  (None, a boolean, a number) raises the TypeError of \<^verbatim>\<open>len\<close>.
\<close>

theorem convert_true_match_other_length:
  "(\<not> isinstance_dict true_match \<and> py_len true_match = Inr n \<and> n \<noteq> 2 \<longrightarrow>
      convert_true_match true_match = Inr true_match)
   \<and> (py_len true_match = Inl e \<longrightarrow> convert_true_match true_match = Inl e)"
  by (cases true_match) (auto simp: convert_true_match_def)

theorem convert_true_match_other_length_witness:
  "convert_true_match (PTuple [PInt 1, PInt 2, PInt 3]) = Inr (PTuple [PInt 1, PInt 2, PInt 3])
   \<and> convert_true_match (PList []) = Inr (PList [])
   \<and> convert_true_match PNone = Inl TypeError"
  using convert_true_match_other_length[of "PTuple [PInt 1, PInt 2, PInt 3]" 3]
    convert_true_match_other_length[of "PList []" 0]
    convert_true_match_other_length[of PNone _ TypeError]
  by simp

section \<open>Properties of entity serialisation\<close>

text \<open>
  C7, as stated, fails. An entity given as a plain dict is not reduced: \<open>score\<close>, which
  is neither a string nor named \<open>id\<close>, is still there.
\<close>

theorem dump_entities_keeps_plain_dict:
  "dump_entities (Some [Other (PDict pump_fields)]) =
     PList [PDict [(''id'', PInt 7), (''name'', PStr ''pump''),
                   (''score'', PFloat 8106479329266893 (- 53))]]"
  by (simp add: dump_entities_def pump_fields_def)

text \<open>
  C7, amended. In a non-empty list of entities, an entity that is a \<^verbatim>\<open>CogniteResource\<close>
  is reduced to the fields of its camel-case dump whose value is a string or whose name is
  \<open>id\<close>, in the order of the dump; an entity that is anything else (a dict) is passed on
  unchanged.
\<close>

theorem dump_entities_filters_resources:
  "i < length es \<longrightarrow>
     (es ! i = CogniteResource dump \<longrightarrow>
        py_index (dump_entities (Some es)) i =
          Inr (PDict (filter (\<lambda>kv. isinstance_str (snd kv) \<or> fst kv = ''id'') dump)))
     \<and> (es ! i = Other v \<longrightarrow> py_index (dump_entities (Some es)) i = Inr v)"
  by (auto simp: dump_entities_def)

lemma filter_fields_set:
  "set (filter (\<lambda>kv. isinstance_str (snd kv) \<or> fst kv = ''id'') dump) =
     {kv \<in> set dump. isinstance_str (snd kv) \<or> fst kv = ''id''}"
  by auto

lemma dump_entities_empty:
  "dump_entities None = PNone" "dump_entities (Some []) = PNone"
  by (simp_all add: dump_entities_def)

theorem dump_entities_filters_resources_witness:
  "py_index (dump_entities (Some [CogniteResource pump_fields, Other (PDict pump_fields)])) 0 =
     Inr (PDict [(''id'', PInt 7), (''name'', PStr ''pump'')])
   \<and> py_index (dump_entities (Some [CogniteResource pump_fields, Other (PDict pump_fields)])) 1 =
     Inr (PDict pump_fields)"
  using dump_entities_filters_resources
      [of 0 "[CogniteResource pump_fields, Other (PDict pump_fields)]" pump_fields]
    dump_entities_filters_resources
      [of 1 "[CogniteResource pump_fields, Other (PDict pump_fields)]" _ "PDict pump_fields"]
  by (simp add: pump_fields_def)


section \<open>Properties of refit\<close>

lemma model_update_status_same_fitted:
  "model_update_status srv s = Inr s' \<Longrightarrow> same_fitted (fst s) (fst s')"
  by (auto simp: model_update_status_def Let_def same_fitted_def split: option.splits)

lemma same_fitted_trans: "same_fitted a b \<Longrightarrow> same_fitted b c \<Longrightarrow> same_fitted a c"
  by (simp add: same_fitted_def)

lemma model_poll_loop_frame:
  assumes "model_poll_loop srv s = Some r"
  shows "case r of Inl e \<Rightarrow> True | Inr s' \<Rightarrow> same_fitted (fst s) (fst s')"
proof (rule model_poll_loop.raw_induct
    [where P = "\<lambda>srv s r. case r of Inl e \<Rightarrow> True | Inr s' \<Rightarrow> same_fitted (fst s) (fst s')",
     OF _ assms])
  fix loop :: "(nat \<Rightarrow> pydict) \<Rightarrow> model \<times> nat \<Rightarrow> (py_error + model \<times> nat) option"
    and srv s r
  assume IH: "\<And>srv s r. loop srv s = Some r \<Longrightarrow>
      (case r of Inl e \<Rightarrow> True | Inr s' \<Rightarrow> same_fitted (fst s) (fst s'))"
    and step: "(case model_update_status srv s of
        Inl e \<Rightarrow> Some (Inl e)
      | Inr s' \<Rightarrow>
          if status (fst s') \<notin> set [PStr ''Queued'', PStr ''Running''] then Some (Inr s')
          else loop srv s') = Some r"
  show "case r of Inl e \<Rightarrow> True | Inr s' \<Rightarrow> same_fitted (fst s) (fst s')"
  proof (cases "model_update_status srv s")
    case (Inl e)
    with step show ?thesis by auto
  next
    case (Inr s1)
    note upd = model_update_status_same_fitted[OF Inr]
    show ?thesis
    proof (cases "status (fst s1) \<notin> set [PStr ''Queued'', PStr ''Running'']")
      case True
      with step Inr have "r = Inr s1" by (auto split: if_splits)
      with upd show ?thesis by simp
    next
      case False
      with step Inr have "loop srv s1 = Some r" by (auto split: if_splits)
      then have ih: "case r of Inl e \<Rightarrow> True | Inr s' \<Rightarrow> same_fitted (fst s1) (fst s')"
        by (rule IH)
      show ?thesis
      proof (cases r)
        case (Inl e)
        then show ?thesis by simp
      next
        case r: (Inr s')
        with ih have "same_fitted (fst s1) (fst s')" by simp
        from same_fitted_trans[OF upd this] r show ?thesis by simp
      qed
    qed
  qed
qed

lemma model_poll_loop_same_fitted:
  "model_poll_loop srv s = Some (Inr s') \<Longrightarrow> same_fitted (fst s) (fst s')"
  using model_poll_loop_frame[of srv s "Inr s'"] by simp

lemma model_wait_same_fitted:
  "model_wait_for_completion srv s = Some (Inr s') \<Longrightarrow> same_fitted (fst s) (fst s')"
  by (auto simp: model_wait_for_completion_def split: option.splits sum.splits if_splits
      dest: model_poll_loop_same_fitted)

text \<open>
  C8, as stated, fails. A model whose status is \<open>Queued\<close> is refitted while the service
  reports \<open>Completed\<close>: refit waits for completion of the receiver first, so the receiver
  comes back with \<open>status\<close> and \<open>status_timestamp\<close> changed.
\<close>

theorem refit_changes_status_of_receiver:
  "model_refit (scripted polls_completed) refit_response load_model (fitted_model, 0)
       [PTuple [PInt 101, PStr ''ext-5'']] =
     Some (Inr (refitted_model,
                fitted_model\<lparr>status := PStr ''Completed'',
                               status_timestamp := PInt 1600000000900\<rparr>, 1))
   \<and> status fitted_model = PStr ''Queued''
   \<and> status_timestamp fitted_model = PNone"
  by (simp add: model_refit_def convert_true_match_def model_wait_for_completion_def
      model_poll_loop.simps model_update_status_def scripted_def polls_completed_def
      refit_response_def load_model_def fitted_model_def refitted_model_def dict_get_def
      py_or_def)

text \<open>
  Every run of refit that returns leaves the attributes of the receiver that are not
  status fields as they were, and returns the model loaded from the response.
\<close>

lemma refit_frame:
  "model_refit srv camel_post load (m, n) true_matches = Some (Inr (new, m', n')) \<longrightarrow>
     (\<exists>converted. convert_all true_matches = Inr converted
        \<and> new = load (camel_post (PDict [(''trueMatches'', PList converted),
                                          (''id'', model_id m)])))
     \<and> model_id m' = model_id m \<and> classifier m' = classifier m
     \<and> feature_type m' = feature_type m \<and> match_fields m' = match_fields m
     \<and> model_type m' = model_type m \<and> name m' = name m
     \<and> description m' = description m \<and> external_id m' = external_id m"
proof
  assume a: "model_refit srv camel_post load (m, n) true_matches = Some (Inr (new, m', n'))"
  then obtain converted where c: "convert_all true_matches = Inr converted"
    by (auto simp: model_refit_def split: sum.splits)
  from a c have w: "model_wait_for_completion srv (m, n) = Some (Inr (m', n'))"
    and new: "new = load (camel_post (PDict [(''trueMatches'', PList converted),
                                          (''id'', model_id m')]))"
    by (auto simp: model_refit_def split: option.splits sum.splits)
  from model_wait_same_fitted[OF w] have s: "same_fitted m m'" by simp
  with c new show "(\<exists>converted. convert_all true_matches = Inr converted
        \<and> new = load (camel_post (PDict [(''trueMatches'', PList converted),
                                          (''id'', model_id m)])))
     \<and> model_id m' = model_id m \<and> classifier m' = classifier m
     \<and> feature_type m' = feature_type m \<and> match_fields m' = match_fields m
     \<and> model_type m' = model_type m \<and> name m' = name m
     \<and> description m' = description m \<and> external_id m' = external_id m"
    by (simp add: same_fitted_def)
qed

lemma same_fitted_refl: "same_fitted m m"
  by (simp add: same_fitted_def)

lemma model_update_status_step:
  assumes "map_of (srv n) ''status'' = Some st"
  shows "\<exists>m1. model_update_status srv (m, n) = Inr (m1, Suc n)
     \<and> status m1 = st
     \<and> status_timestamp m1 = dict_get (srv n) ''statusTimestamp''
     \<and> start_timestamp m1 = dict_get (srv n) ''startTimestamp''
     \<and> error_message m1 = dict_get (srv n) ''errorMessage''
     \<and> request_timestamp m1 =
         py_or (request_timestamp m) (dict_get (srv n) ''requestTimestamp'')
     \<and> same_fitted m m1"
  using assms by (simp add: model_update_status_def Let_def same_fitted_def)

lemma model_poll_loop_steps:
  assumes "\<forall>i<k. map_of (srv (n + i)) ''status'' = Some (PStr ''Queued'')
              \<or> map_of (srv (n + i)) ''status'' = Some (PStr ''Running'')"
    "map_of (srv (n + k)) ''status'' = Some st" "st \<noteq> PStr ''Queued''" "st \<noteq> PStr ''Running''"
  shows "\<exists>m'. model_poll_loop srv (m, n) = Some (Inr (m', Suc (n + k)))
     \<and> status m' = st
     \<and> status_timestamp m' = dict_get (srv (n + k)) ''statusTimestamp''
     \<and> start_timestamp m' = dict_get (srv (n + k)) ''startTimestamp''
     \<and> error_message m' = dict_get (srv (n + k)) ''errorMessage''
     \<and> (truthy (request_timestamp m) \<longrightarrow> request_timestamp m' = request_timestamp m)
     \<and> same_fitted m m'"
  using assms
proof (induction k arbitrary: m n)
  case 0
  from model_update_status_step[of srv n st m] 0(2) obtain m1 where
    m1: "model_update_status srv (m, n) = Inr (m1, Suc n)" "status m1 = st"
      "status_timestamp m1 = dict_get (srv n) ''statusTimestamp''"
      "start_timestamp m1 = dict_get (srv n) ''startTimestamp''"
      "error_message m1 = dict_get (srv n) ''errorMessage''"
      "request_timestamp m1 = py_or (request_timestamp m) (dict_get (srv n) ''requestTimestamp'')"
      "same_fitted m m1" by auto
  have "model_poll_loop srv (m, n) = Some (Inr (m1, Suc n))"
    by (subst model_poll_loop.simps) (simp add: m1 0)
  with m1 show ?case by (auto simp: py_or_def)
next
  case (Suc k)
  from Suc.prems(1) obtain s0 where
    s0: "map_of (srv n) ''status'' = Some s0" "s0 = PStr ''Queued'' \<or> s0 = PStr ''Running''"
    by (metis add.right_neutral zero_less_Suc)
  from model_update_status_step[of srv n s0 m] s0(1) obtain m1 where
    m1: "model_update_status srv (m, n) = Inr (m1, Suc n)" "status m1 = s0"
      "request_timestamp m1 = py_or (request_timestamp m) (dict_get (srv n) ''requestTimestamp'')"
      "same_fitted m m1" by auto
  have step: "model_poll_loop srv (m, n) = model_poll_loop srv (m1, Suc n)"
    by (subst model_poll_loop.simps) (use s0(2) in \<open>auto simp: m1\<close>)
  have a: "\<forall>i<k. map_of (srv (Suc n + i)) ''status'' = Some (PStr ''Queued'')
              \<or> map_of (srv (Suc n + i)) ''status'' = Some (PStr ''Running'')"
    using Suc.prems(1) by (metis Suc_less_eq add_Suc_shift)
  have b: "map_of (srv (Suc n + k)) ''status'' = Some st"
    using Suc.prems(2) by simp
  from Suc.IH[OF a b Suc.prems(3,4), of m1] obtain m' where
    m': "model_poll_loop srv (m1, Suc n) = Some (Inr (m', Suc (Suc n + k)))"
      "status m' = st"
      "status_timestamp m' = dict_get (srv (Suc n + k)) ''statusTimestamp''"
      "start_timestamp m' = dict_get (srv (Suc n + k)) ''startTimestamp''"
      "error_message m' = dict_get (srv (Suc n + k)) ''errorMessage''"
      "truthy (request_timestamp m1) \<longrightarrow> request_timestamp m' = request_timestamp m1"
      "same_fitted m1 m'" by blast
  have rt: "truthy (request_timestamp m) \<longrightarrow> request_timestamp m' = request_timestamp m"
    using m'(6) m1(3) by (simp add: py_or_def)
  from step m' rt same_fitted_trans[OF m1(4) m'(7)] show ?case by simp
qed

lemma polled_request_timestamp_0: "polled_request_timestamp srv n 0 rt = rt"
  by (simp add: polled_request_timestamp_def)

lemma polled_request_timestamp_Suc:
  "polled_request_timestamp srv n (Suc k) rt =
     polled_request_timestamp srv (Suc n) k (py_or rt (dict_get (srv n) ''requestTimestamp''))"
proof -
  have "[0..<Suc k] = 0 # map Suc [0..<k]"
    by (simp add: upt_conv_Cons map_Suc_upt del: upt_Suc)
  then show ?thesis
    by (simp add: polled_request_timestamp_def fold_map comp_def del: upt_Suc)
qed

lemma polled_request_timestamp_truthy:
  "truthy rt \<Longrightarrow> polled_request_timestamp srv n k rt = rt"
  by (induction k arbitrary: n) (simp_all add: polled_request_timestamp_0
      polled_request_timestamp_Suc py_or_def)

lemma model_poll_loop_request_timestamp:
  assumes "\<forall>i<k. map_of (srv (n + i)) ''status'' = Some (PStr ''Queued'')
              \<or> map_of (srv (n + i)) ''status'' = Some (PStr ''Running'')"
    "map_of (srv (n + k)) ''status'' = Some st" "st \<noteq> PStr ''Queued''" "st \<noteq> PStr ''Running''"
    "model_poll_loop srv (m, n) = Some (Inr (m', n'))"
  shows "request_timestamp m' = polled_request_timestamp srv n (Suc k) (request_timestamp m)"
  using assms
proof (induction k arbitrary: m n)
  case 0
  from model_update_status_step[of srv n st m] 0(2) obtain m1 where
    m1: "model_update_status srv (m, n) = Inr (m1, Suc n)" "status m1 = st"
      "request_timestamp m1 = py_or (request_timestamp m) (dict_get (srv n) ''requestTimestamp'')"
    by auto
  have "model_poll_loop srv (m, n) = Some (Inr (m1, Suc n))"
    by (subst model_poll_loop.simps) (simp add: m1 0)
  with 0(5) m1(3) show ?case
    by (simp add: polled_request_timestamp_Suc polled_request_timestamp_0)
next
  case (Suc k)
  from Suc.prems(1) obtain s0 where
    s0: "map_of (srv n) ''status'' = Some s0" "s0 = PStr ''Queued'' \<or> s0 = PStr ''Running''"
    by (metis add.right_neutral zero_less_Suc)
  from model_update_status_step[of srv n s0 m] s0(1) obtain m1 where
    m1: "model_update_status srv (m, n) = Inr (m1, Suc n)" "status m1 = s0"
      "request_timestamp m1 = py_or (request_timestamp m) (dict_get (srv n) ''requestTimestamp'')"
    by auto
  have step: "model_poll_loop srv (m, n) = model_poll_loop srv (m1, Suc n)"
    by (subst model_poll_loop.simps) (use s0(2) in \<open>auto simp: m1\<close>)
  have a: "\<forall>i<k. map_of (srv (Suc n + i)) ''status'' = Some (PStr ''Queued'')
              \<or> map_of (srv (Suc n + i)) ''status'' = Some (PStr ''Running'')"
    using Suc.prems(1) by (metis Suc_less_eq add_Suc_shift)
  have b: "map_of (srv (Suc n + k)) ''status'' = Some st"
    using Suc.prems(2) by simp
  from Suc.prems(5) step have "model_poll_loop srv (m1, Suc n) = Some (Inr (m', n'))" by simp
  from Suc.IH[OF a b Suc.prems(3,4) this] m1(3) show ?case
    by (simp add: polled_request_timestamp_Suc[of srv n "Suc k"])
qed


text \<open>
  C8, amended. When the true matches convert and the polls of the receiver report
  \<open>Queued\<close> or \<open>Running\<close> any number of times (\<open>k\<close>, possibly none) and then a
  status other than \<open>Queued\<close>, \<open>Running\<close> and \<open>Failed\<close>, refit returns after
  \<open>k + 1\<close> polls. The model returned is the one loaded from the response to the refit
  request, whose body holds the converted true matches and the id of the receiver. The
  receiver comes back with its status fields refreshed from the last poll (\<open>status\<close>,
  \<open>status_timestamp\<close>, \<open>start_timestamp\<close> and \<open>error_message\<close> are that
  response's values; \<open>request_timestamp\<close> is kept when it was set, and is otherwise
  filled from the \<open>requestTimestamp\<close> of the polls, \<open>polled_request_timestamp\<close>)
  and with every other attribute unchanged: id, classifier, feature type, match fields, model type, name,
  description, external id.
\<close>

theorem refit_returns_new_model_and_refreshes_status:
  "convert_all true_matches = Inr converted
   \<and> (\<forall>i<k. map_of (srv (n + i)) ''status'' = Some (PStr ''Queued'')
              \<or> map_of (srv (n + i)) ''status'' = Some (PStr ''Running''))
   \<and> map_of (srv (n + k)) ''status'' = Some st
   \<and> st \<noteq> PStr ''Queued'' \<and> st \<noteq> PStr ''Running'' \<and> st \<noteq> PStr ''Failed'' \<longrightarrow>
     (\<exists>m'. model_refit srv camel_post load (m, n) true_matches =
             Some (Inr (load (camel_post (PDict [(''trueMatches'', PList converted),
                                                  (''id'', model_id m)])),
                        m', Suc (n + k)))
        \<and> status m' = st
        \<and> status_timestamp m' = dict_get (srv (n + k)) ''statusTimestamp''
        \<and> start_timestamp m' = dict_get (srv (n + k)) ''startTimestamp''
        \<and> error_message m' = dict_get (srv (n + k)) ''errorMessage''
        \<and> request_timestamp m' = polled_request_timestamp srv n (Suc k) (request_timestamp m)
        \<and> (truthy (request_timestamp m) \<longrightarrow> request_timestamp m' = request_timestamp m)
        \<and> model_id m' = model_id m \<and> classifier m' = classifier m
        \<and> feature_type m' = feature_type m \<and> match_fields m' = match_fields m
        \<and> model_type m' = model_type m \<and> name m' = name m
        \<and> description m' = description m \<and> external_id m' = external_id m)"
proof
  assume a: "convert_all true_matches = Inr converted
   \<and> (\<forall>i<k. map_of (srv (n + i)) ''status'' = Some (PStr ''Queued'')
              \<or> map_of (srv (n + i)) ''status'' = Some (PStr ''Running''))
   \<and> map_of (srv (n + k)) ''status'' = Some st
   \<and> st \<noteq> PStr ''Queued'' \<and> st \<noteq> PStr ''Running'' \<and> st \<noteq> PStr ''Failed''"
  then have c: "convert_all true_matches = Inr converted"
    and q: "\<forall>i<k. map_of (srv (n + i)) ''status'' = Some (PStr ''Queued'')
              \<or> map_of (srv (n + i)) ''status'' = Some (PStr ''Running'')"
    and t: "map_of (srv (n + k)) ''status'' = Some st"
    and st: "st \<noteq> PStr ''Queued''" "st \<noteq> PStr ''Running''" "st \<noteq> PStr ''Failed''"
    by blast+
  from model_poll_loop_steps[OF q t st(1,2), of m] obtain m' where
    m': "model_poll_loop srv (m, n) = Some (Inr (m', Suc (n + k)))"
      "status m' = st"
      "status_timestamp m' = dict_get (srv (n + k)) ''statusTimestamp''"
      "start_timestamp m' = dict_get (srv (n + k)) ''startTimestamp''"
      "error_message m' = dict_get (srv (n + k)) ''errorMessage''"
      "truthy (request_timestamp m) \<longrightarrow> request_timestamp m' = request_timestamp m"
      "same_fitted m m'" by blast
  have w: "model_wait_for_completion srv (m, n) = Some (Inr (m', Suc (n + k)))"
    by (simp add: model_wait_for_completion_def m'(1,2) st(3))
  have id: "model_id m' = model_id m" using m'(7) by (simp add: same_fitted_def)
  have rt: "request_timestamp m' = polled_request_timestamp srv n (Suc k) (request_timestamp m)"
    by (rule model_poll_loop_request_timestamp[OF q t st(1,2) m'(1)])
  have r: "model_refit srv camel_post load (m, n) true_matches =
             Some (Inr (load (camel_post (PDict [(''trueMatches'', PList converted),
                                                  (''id'', model_id m)])),
                        m', Suc (n + k)))"
    by (simp add: model_refit_def c w id)
  from r m'(2-6) m'(7) rt show "\<exists>m'. model_refit srv camel_post load (m, n) true_matches =
             Some (Inr (load (camel_post (PDict [(''trueMatches'', PList converted),
                                                  (''id'', model_id m)])),
                        m', Suc (n + k)))
        \<and> status m' = st
        \<and> status_timestamp m' = dict_get (srv (n + k)) ''statusTimestamp''
        \<and> start_timestamp m' = dict_get (srv (n + k)) ''startTimestamp''
        \<and> error_message m' = dict_get (srv (n + k)) ''errorMessage''
        \<and> request_timestamp m' = polled_request_timestamp srv n (Suc k) (request_timestamp m)
        \<and> (truthy (request_timestamp m) \<longrightarrow> request_timestamp m' = request_timestamp m)
        \<and> model_id m' = model_id m \<and> classifier m' = classifier m
        \<and> feature_type m' = feature_type m \<and> match_fields m' = match_fields m
        \<and> model_type m' = model_type m \<and> name m' = name m
        \<and> description m' = description m \<and> external_id m' = external_id m"
    by (intro exI[of _ m']) (simp add: same_fitted_def)
qed

theorem refit_returns_new_model_and_refreshes_status_witness:
  "model_refit (scripted polls_queued_completed_at) refit_response load_model (fitted_model, 0)
       [PTuple [PInt 101, PStr ''ext-5'']] =
     Some (Inr (refitted_model,
                fitted_model\<lparr>status := PStr ''Completed'',
                               start_timestamp := PInt 1600000000400,
                               status_timestamp := PInt 1600000000900\<rparr>, 2))
   \<and> refitted_model =
       load_model (refit_response
         (PDict [(''trueMatches'',
                  PList [PDict [(''fromId'', PInt 101), (''toExternalId'', PStr ''ext-5'')]]),
                 (''id'', PInt 3)]))
   \<and> status fitted_model = PStr ''Queued'' \<and> status_timestamp fitted_model = PNone"
  using refit_returns_new_model_and_refreshes_status
    [where true_matches = "[PTuple [PInt 101, PStr ''ext-5'']]"
       and converted = "[PDict [(''fromId'', PInt 101), (''toExternalId'', PStr ''ext-5'')]]"
       and k = 1 and n = 0 and srv = "scripted polls_queued_completed_at"
       and st = "PStr ''Completed''" and m = fitted_model
       and camel_post = refit_response and load = load_model]
  by (simp add: model_refit_def convert_true_match_def model_wait_for_completion_def
      model_poll_loop.simps model_update_status_def scripted_def polls_queued_completed_at_def
      refit_response_def load_model_def fitted_model_def refitted_model_def dict_get_def
      py_or_def)


section \<open>Properties of the merged related resources\<close>

lemma dedup_loop_inv:
  assumes "dedup_loop res seen acc = (rs, seen')"
    "distinct (map res_id acc)" "res_id ` set acc \<inter> S0 = {}" "seen = S0 \<union> res_id ` set acc"
  shows "distinct (map res_id rs) \<and> res_id ` set rs \<inter> S0 = {} \<and> seen' = S0 \<union> res_id ` set rs"
  using assms
proof (induction res arbitrary: seen acc)
  case Nil
  then show ?case by auto
next
  case (Cons r res)
  show ?case
  proof (cases "res_id r \<in> seen")
    case True
    with Cons.prems(1) have "dedup_loop res seen acc = (rs, seen')" by simp
    from Cons.IH[OF this Cons.prems(2,3,4)] show ?thesis .
  next
    case False
    with Cons.prems(1) have
      d: "dedup_loop res (insert (res_id r) seen) (acc @ [r]) = (rs, seen')"
      by simp
    from False Cons.prems(4) have n: "res_id r \<notin> S0" "res_id r \<notin> res_id ` set acc" by auto
    have "distinct (map res_id (acc @ [r]))" using Cons.prems(2) n by simp
    moreover have "res_id ` set (acc @ [r]) \<inter> S0 = {}" using Cons.prems(3) n by auto
    moreover have "insert (res_id r) seen = S0 \<union> res_id ` set (acc @ [r])"
      using Cons.prems(4) by auto
    ultimately show ?thesis by (rule Cons.IH[OF d])
  qed
qed

lemma retrieve_and_deduplicate_fresh:
  assumes "retrieve_and_deduplicate list_api seen asset_ids = (rs, seen')"
  shows "distinct (map res_id rs) \<and> res_id ` set rs \<inter> seen = {} \<and> seen' = seen \<union> res_id ` set rs"
  using dedup_loop_inv[of "list_api asset_ids" seen "[]" rs seen' seen] assms
  by (simp add: retrieve_and_deduplicate_def)

lemma results_inv_step:
  assumes "results_inv seen results"
    "retrieve_and_deduplicate list_api seen asset_ids = (rs, seen')"
  shows "results_inv seen' (results(i := rs))"
proof -
  from retrieve_and_deduplicate_fresh[OF assms(2)] have
    f: "distinct (map res_id rs)" "res_id ` set rs \<inter> seen = {}" "seen' = seen \<union> res_id ` set rs"
    by auto
  from assms(1) have a: "\<And>k. distinct (map res_id (results k))"
    "\<And>k. res_id ` set (results k) \<subseteq> seen"
    "\<And>k l. k \<noteq> l \<Longrightarrow> res_id ` set (results k) \<inter> res_id ` set (results l) = {}"
    unfolding results_inv_def by blast+
  have old_new: "res_id ` set (results k) \<inter> res_id ` set rs = {}" for k
    using a(2)[of k] f(2) by blast
  have d: "distinct (map res_id ((results(i := rs)) k))" for k
    using a(1) f(1) by simp
  have sub: "res_id ` set ((results(i := rs)) k) \<subseteq> seen'" for k
    using a(2)[of k] f(3) by (cases "k = i") auto
  have dis: "k = l \<or> res_id ` set ((results(i := rs)) k) \<inter> res_id ` set ((results(i := rs)) l) = {}"
    for k l
  proof (cases "k = l")
    case True
    then show ?thesis by simp
  next
    case False
    consider "k = i" | "l = i" | "k \<noteq> i" "l \<noteq> i" by blast
    then have "res_id ` set ((results(i := rs)) k) \<inter> res_id ` set ((results(i := rs)) l) = {}"
    proof cases
      case 1
      with False old_new[of l] show ?thesis by (simp add: Int_commute)
    next
      case 2
      with False old_new[of k] show ?thesis by simp
    next
      case 3
      with False a(3)[of k l] show ?thesis by simp
    qed
    then show ?thesis ..
  qed
  show ?thesis
    unfolding results_inv_def using d sub dis by blast
qed

lemma run_tasks_inv:
  "results_inv seen results \<Longrightarrow> run_tasks list_api tasks sched seen results = (results', seen')
     \<Longrightarrow> results_inv seen' results'"
proof (induction sched arbitrary: seen results)
  case Nil
  then show ?case by simp
next
  case (Cons i sched)
  show ?case
  proof (cases "i < length tasks")
    case False
    with Cons show ?thesis by simp
  next
    case True
    obtain rs s1 where r: "retrieve_and_deduplicate list_api seen (tasks ! i) = (rs, s1)"
      by (cases "retrieve_and_deduplicate list_api seen (tasks ! i)")
    with True Cons.prems(2) have
      "run_tasks list_api tasks sched s1 (results(i := rs)) = (results', seen')" by simp
    from Cons.IH[OF results_inv_step[OF Cons.prems(1) r] this] show ?thesis .
  qed
qed

lemma results_inv_distinct_concat:
  assumes "results_inv seen results" "distinct is"
  shows "distinct (map res_id (concat (map results is)))"
  using assms(2)
proof (induction "is")
  case Nil
  then show ?case by simp
next
  case (Cons i "is")
  from assms(1) have a: "distinct (map res_id (results i))"
    "\<And>l. i \<noteq> l \<Longrightarrow> res_id ` set (results i) \<inter> res_id ` set (results l) = {}"
    unfolding results_inv_def by blast+
  from Cons.prems have "\<And>l. l \<in> set is \<Longrightarrow> i \<noteq> l" by auto
  with a(2) have "res_id ` set (results i) \<inter> (\<Union>l \<in> set is. res_id ` set (results l)) = {}"
    by blast
  then have "set (map res_id (results i)) \<inter> set (map res_id (concat (map results is))) = {}"
    by auto
  moreover from Cons have "distinct (map res_id (concat (map results is)))" by simp
  ultimately show ?case using a(1) by (simp del: set_map set_concat)
qed

text \<open>
  C5. Whatever the asset list, the answers of the list request and the order in which the
  batches are merged, the sequence returned holds every resource id at most once.
\<close>

theorem merged_resources_distinct_ids:
  "retrieve_related_resources list_api sched self = Inr resources \<longrightarrow>
     distinct (map res_id resources)"
proof
  assume a: "retrieve_related_resources list_api sched self = Inr resources"
  define tasks where "tasks = asset_id_tasks (retrieve_chunk_size self) (data self)"
  obtain res_list seen' where
    r: "run_tasks list_api tasks sched {} (\<lambda>i. []) = (res_list, seen')"
    by (cases "run_tasks list_api tasks sched {} (\<lambda>i. [])")
  have "results_inv {} (\<lambda>i. [])" by (simp add: results_inv_def)
  from run_tasks_inv[OF this r] have inv: "results_inv seen' res_list" .
  from a r have "resources = concat (map res_list [0..<length tasks])"
    by (auto simp: retrieve_related_resources_def tasks_def Let_def split: if_splits)
  with results_inv_distinct_concat[OF inv, of "[0..<length tasks]"]
  show "distinct (map res_id resources)" by simp
qed


lemma three_parents_tasks:
  "asset_id_tasks 2 [PInt 1, PInt 2, PInt 3] = [[PInt 1, PInt 2], [PInt 3]]"
  by (simp add: asset_id_tasks_def upt_rec[of 0] upt_rec[of 1] upt_rec[of "Suc 0"] upt_rec[of 2])

lemma five_resources_merge:
  "retrieve_and_deduplicate list_overlapping {} (a # as) =
     (five_resources, {PInt 100, PInt 101, PInt 102, PInt 103, PInt 104})"
  "retrieve_and_deduplicate list_overlapping
      {PInt 100, PInt 101, PInt 102, PInt 103, PInt 104} (a # as) =
     ([], {PInt 100, PInt 101, PInt 102, PInt 103, PInt 104})"
  by (auto simp: retrieve_and_deduplicate_def list_overlapping_def five_resources_def)

theorem merged_resources_distinct_ids_witness:
  "retrieve_related_resources list_overlapping [0, 1] three_parents = Inr five_resources
   \<and> retrieve_related_resources list_overlapping [1, 0] three_parents = Inr five_resources
   \<and> distinct (map res_id five_resources)"
  using merged_resources_distinct_ids[of list_overlapping "[0, 1]" three_parents five_resources]
  by (simp add: retrieve_related_resources_def three_parents_def three_parents_tasks
      five_resources_merge upt_rec[of 0] upt_rec[of 1] upt_rec[of "Suc 0"] upt_rec[of 2])

section \<open>Properties of type and label updates\<close>

lemma map_of_dict_set: "map_of (dict_set d k v) = (map_of d)(k \<mapsto> v)"
  by (induction d) (auto simp: fun_eq_iff)

lemma dict_get_dict_set:
  "dict_get (dict_set d k v) k' = (if k' = k then v else dict_get d k')"
  by (simp add: dict_get_def map_of_dict_set)

lemma dict_get_simps:
  "dict_get [] k = PNone"
  "dict_get ((k', v) # d) k = (if k = k' then v else dict_get d k)"
  by (simp_all add: dict_get_def)

lemma dict_get_set_if_none:
  "v \<noteq> PNone \<Longrightarrow> dict_get (set_if_none d k v) k' =
     (if k' = k \<and> dict_get d k = PNone then v else dict_get d k')"
  by (simp add: set_if_none_def dict_get_dict_set)

lemma append_under_ok:
  assumes "buckets_ok (dict_get uo field)" "bucket = ''put'' \<or> bucket = ''remove''"
  shows "\<exists>uo' fd'. append_under uo field bucket entry = Inr uo'
     \<and> dict_get uo' field = PDict fd'
     \<and> list_items (dict_get fd' bucket) =
         list_items (dict_get (dict_items (dict_get uo field)) bucket) @ [entry]
     \<and> (\<forall>b. b = bucket \<or> dict_get fd' b = dict_get (dict_items (dict_get uo field)) b)
     \<and> (\<forall>f. f = field \<or> dict_get uo' f = dict_get uo f)"
proof (cases "dict_get uo field")
  case PNone
  then show ?thesis
    by (simp add: append_under_def set_if_none_def dict_get_dict_set Let_def dict_get_simps)
next
  case (PDict fd)
  with assms(1) have nl: "none_or_list (dict_get fd bucket)"
    using assms(2) by auto
  show ?thesis
  proof (cases "dict_get fd bucket")
    case PNone
    with PDict show ?thesis
      by (simp add: append_under_def set_if_none_def dict_get_dict_set Let_def)
  next
    case (PList xs)
    with PDict show ?thesis
      by (simp add: append_under_def set_if_none_def dict_get_dict_set Let_def)
  qed (use nl in auto)
qed (use assms(1) in auto)


lemma append_under_recorded:
  assumes "well_formed self" "field = ''types'' \<or> field = ''labels''"
    "bucket = ''put'' \<or> bucket = ''remove''"
  shows "\<exists>uo'. append_under (update_object self) field bucket entry = Inr uo'
     \<and> well_formed (self\<lparr>update_object := uo'\<rparr>)
     \<and> (\<forall>f b. recorded (self\<lparr>update_object := uo'\<rparr>) f b =
            (if f = field \<and> b = bucket then recorded self f b @ [entry] else recorded self f b))"
proof -
  from assms(1,2) have ok: "buckets_ok (dict_get (update_object self) field)"
    by (auto simp: well_formed_def)
  from append_under_ok[OF ok assms(3), of entry] obtain uo' fd' where
    r: "append_under (update_object self) field bucket entry = Inr uo'"
    and fd: "dict_get uo' field = PDict fd'"
    and new: "list_items (dict_get fd' bucket) =
         list_items (dict_get (dict_items (dict_get (update_object self) field)) bucket) @ [entry]"
    and other_b: "\<And>b. b \<noteq> bucket \<Longrightarrow>
         dict_get fd' b = dict_get (dict_items (dict_get (update_object self) field)) b"
    and other_f: "\<And>f. f \<noteq> field \<Longrightarrow> dict_get uo' f = dict_get (update_object self) f"
    by blast
  have nl_new: "none_or_list (dict_get fd' bucket)"
  proof (cases "dict_get fd' bucket")
    case PNone
    with new show ?thesis by simp
  qed (use new in auto)
  have nl_old: "none_or_list (dict_get (dict_items (dict_get (update_object self) field)) b)"
    if "b = ''put'' \<or> b = ''remove''" for b
  proof (cases "dict_get (update_object self) field")
    case (PDict fd)
    with ok that show ?thesis by auto
  qed (use ok in \<open>auto simp: dict_get_simps\<close>)
  have "buckets_ok (dict_get uo' field)"
  proof -
    have "none_or_list (dict_get fd' b)" if "b = ''put'' \<or> b = ''remove''" for b
      using nl_new nl_old[OF that] other_b[of b] by (cases "b = bucket") auto
    with fd show ?thesis by simp
  qed
  with assms(1) other_f[of "''types''"] other_f[of "''labels''"]
  have wf: "well_formed (self\<lparr>update_object := uo'\<rparr>)"
    by (cases "field = ''types''"; cases "field = ''labels''") (simp_all add: well_formed_def)
  have rec: "recorded (self\<lparr>update_object := uo'\<rparr>) f b =
            (if f = field \<and> b = bucket then recorded self f b @ [entry] else recorded self f b)"
    for f b
  proof (cases "f = field")
    case True
    with fd new other_b[of b] show ?thesis by (cases "b = bucket") (auto simp: recorded_def)
  next
    case False
    with other_f[of f] show ?thesis by (simp add: recorded_def)
  qed
  from r wf rec show ?thesis by blast
qed

lemma dedicated_operation_recorded:
  assumes "well_formed self" "field = ''types'' \<or> field = ''labels''"
    "bucket = ''put'' \<or> bucket = ''remove''"
    "r = (case append_under (update_object self) field bucket entry of
            Inl e \<Rightarrow> Inl e
          | Inr uo \<Rightarrow> Inr (self\<lparr>update_object := uo\<rparr>))"
  shows "\<exists>self'. r = Inr self' \<and> well_formed self'
     \<and> (\<forall>f b. recorded self' f b =
            (if f = field \<and> b = bucket then recorded self f b @ [entry] else recorded self f b))"
proof -
  from append_under_recorded[OF assms(1,2,3), of entry] obtain uo' where
    "append_under (update_object self) field bucket entry = Inr uo'"
    "well_formed (self\<lparr>update_object := uo'\<rparr>)"
    "\<forall>f b. recorded (self\<lparr>update_object := uo'\<rparr>) f b =
            (if f = field \<and> b = bucket then recorded self f b @ [entry] else recorded self f b)"
    by blast
  with assms(4) show ?thesis by simp
qed

lemma well_formed_initial: "well_formed \<lparr>update_object = []\<rparr>"
  by (simp add: well_formed_def dict_get_simps)

text \<open>
  C9. Reading the property \<open>types\<close> or \<open>labels\<close> of an update raises the exception that
  points to the dedicated operations. On every update object that these operations can
  have produced (\<open>well_formed\<close>, which holds initially and is kept), \<open>put_type\<close>,
  \<open>remove_type\<close>, \<open>put_label\<close> and \<open>remove_label\<close> succeed and append their entry
  under \<open>types.put\<close>, \<open>types.remove\<close>, \<open>labels.put\<close> and \<open>labels.remove\<close>
  respectively, leaving every other bucket as it was.
\<close>

theorem types_labels_guarded_and_recorded:
  "types self =
     Inl (Exception ''Use the put_type and remove_type functions to handle type updates'')
   \<and> labels self =
     Inl (Exception ''Use the put_label and remove_label functions to handle label updates'')
   \<and> (well_formed self \<longrightarrow>
      (\<exists>self'. put_type self properties version id' external_id' = Inr self'
         \<and> well_formed self'
         \<and> (\<forall>f b. recorded self' f b =
              (if f = ''types'' \<and> b = ''put'' then
                 recorded self f b @
                   [PDict [(''type'', PDict [(''id'', id'), (''externalId'', external_id'),
                                              (''version'', version)]),
                           (''properties'', properties)]]
               else recorded self f b)))
      \<and> (\<exists>self'. remove_type self version id' external_id' = Inr self'
         \<and> well_formed self'
         \<and> (\<forall>f b. recorded self' f b =
              (if f = ''types'' \<and> b = ''remove'' then
                 recorded self f b @
                   [PDict [(''id'', id'), (''externalId'', external_id'), (''version'', version)]]
               else recorded self f b)))
      \<and> (\<exists>self'. put_label self external_id' = Inr self'
         \<and> well_formed self'
         \<and> (\<forall>f b. recorded self' f b =
              (if f = ''labels'' \<and> b = ''put'' then
                 recorded self f b @ [PDict [(''externalId'', external_id')]]
               else recorded self f b)))
      \<and> (\<exists>self'. remove_label self external_id' = Inr self'
         \<and> well_formed self'
         \<and> (\<forall>f b. recorded self' f b =
              (if f = ''labels'' \<and> b = ''remove'' then
                 recorded self f b @ [PDict [(''externalId'', external_id')]]
               else recorded self f b))))"
proof (intro conjI impI)
  assume wf: "well_formed self"
  show "\<exists>self'. put_type self properties version id' external_id' = Inr self'
         \<and> well_formed self'
         \<and> (\<forall>f b. recorded self' f b =
              (if f = ''types'' \<and> b = ''put'' then
                 recorded self f b @
                   [PDict [(''type'', PDict [(''id'', id'), (''externalId'', external_id'),
                                              (''version'', version)]),
                           (''properties'', properties)]]
               else recorded self f b))"
    by (rule dedicated_operation_recorded[OF wf _ _ put_type_def]) simp_all
  show "\<exists>self'. remove_type self version id' external_id' = Inr self'
         \<and> well_formed self'
         \<and> (\<forall>f b. recorded self' f b =
              (if f = ''types'' \<and> b = ''remove'' then
                 recorded self f b @
                   [PDict [(''id'', id'), (''externalId'', external_id'), (''version'', version)]]
               else recorded self f b))"
    by (rule dedicated_operation_recorded[OF wf _ _ remove_type_def]) simp_all
  show "\<exists>self'. put_label self external_id' = Inr self'
         \<and> well_formed self'
         \<and> (\<forall>f b. recorded self' f b =
              (if f = ''labels'' \<and> b = ''put'' then
                 recorded self f b @ [PDict [(''externalId'', external_id')]]
               else recorded self f b))"
    by (rule dedicated_operation_recorded[OF wf _ _ put_label_def]) simp_all
  show "\<exists>self'. remove_label self external_id' = Inr self'
         \<and> well_formed self'
         \<and> (\<forall>f b. recorded self' f b =
              (if f = ''labels'' \<and> b = ''remove'' then
                 recorded self f b @ [PDict [(''externalId'', external_id')]]
               else recorded self f b))"
    by (rule dedicated_operation_recorded[OF wf _ _ remove_label_def]) simp_all
qed (simp_all add: types_def labels_def)


theorem types_labels_guarded_and_recorded_witness:
  "well_formed \<lparr>update_object = []\<rparr>
   \<and> put_type \<lparr>update_object = []\<rparr> (PDict [(''depth'', PInt 3)]) (PInt 1) (PInt 11) PNone =
     Inr \<lparr>update_object =
            [(''types'', PDict [(''put'', PList
               [PDict [(''type'', PDict [(''id'', PInt 11), (''externalId'', PNone),
                                          (''version'', PInt 1)]),
                       (''properties'', PDict [(''depth'', PInt 3)])]])])]\<rparr>
   \<and> remove_label \<lparr>update_object = []\<rparr> (PStr ''PUMP'') =
     Inr \<lparr>update_object =
            [(''labels'', PDict [(''remove'', PList [PDict [(''externalId'', PStr ''PUMP'')]])])]\<rparr>"
  using types_labels_guarded_and_recorded
    [of "\<lparr>update_object = []\<rparr>" "PDict [(''depth'', PInt 3)]" "PInt 1" "PInt 11" PNone]
  by (simp add: well_formed_def put_type_def remove_label_def append_under_def set_if_none_def
      dict_get_simps Let_def)

lemma put_label_then_remove_label:
  "put_label \<lparr>update_object = []\<rparr> (PStr ''PUMP'') =
     Inr \<lparr>update_object =
            [(''labels'', PDict [(''put'', PList [PDict [(''externalId'', PStr ''PUMP'')]])])]\<rparr>"
  "remove_label
     \<lparr>update_object =
        [(''labels'', PDict [(''put'', PList [PDict [(''externalId'', PStr ''PUMP'')]])])]\<rparr>
     (PStr ''VALVE'') =
     Inr \<lparr>update_object =
            [(''labels'', PDict [(''put'', PList [PDict [(''externalId'', PStr ''PUMP'')]]),
                                 (''remove'', PList [PDict [(''externalId'', PStr ''VALVE'')]])])]\<rparr>"
  by (simp_all add: put_label_def remove_label_def append_under_def set_if_none_def
      dict_get_simps Let_def)

end
